theory Spec2Isabelle
  imports Main "HOL-Library.Sublist"
begin

section \<open>Wallet connection and permission reconciliation of oreid-js\<close>

text \<open>
  A shallow embedding of the \<open>OreId\<close> class (the TypeScript source, with the older
  JavaScript source where the two agree). Every method takes the engine's
  environment \<open>E\<close> (options, constants, the identity-service API and the wallet, all of
  them collaborators of the class) and the mutable world \<open>W\<close>, and returns its
  outcome with the new world. A thrown \<open>Error\<close> is \<open>Inl\<close>.

  Asynchrony. \<open>await f(..)\<close> runs \<open>f\<close> and propagates its rejection. A call of an
  async method that is \<^emph>\<open>not\<close> awaited still runs, but its outcome is dropped: a
  rejection of that promise reaches no caller and ends as an unhandled rejection, which
  the log records. For the check in the constructor, the callbacks of the reconciler and
  the permission update at the end of \<open>discover\<close>, the embedding runs such a call where
  it is started (\<open>detached\<close>, below), so that its requests are recorded in the order in
  which they are sent. The retry that \<open>doTransitProviderLogin\<close> starts is treated
  apart: it goes on logging the wallet in and out after the promise of the loop has
  resolved, while the caller of the loop reads the wallet. It is kept as a call that is
  still running (\<open>detachedCall\<close>), and the world in which the loop returns is the one
  the caller finds.
\<close>

subsection \<open>Values, errors, requests\<close>

type_synonym AccountName = string
type_synonym ChainAccount = string
type_synonym ChainNetwork = string
type_synonym PermissionName = string
type_synonym PublicKey = string
type_synonym AuthProvider = string
type_synonym ProcessId = string

text \<open>
  The messages of the \<open>Error\<close>s the class throws, one constructor per message;
  \<open>ApiError\<close> and \<open>WalletError\<close> are the errors with which the identity service and the
  wallet answer, and \<open>TypeError\<close> is the error of reading a field of \<open>null\<close> or
  \<open>undefined\<close>.
\<close>

datatype error =
    OptionsInvalid "string list"
  | DuplicateProviders "string list"
  | InvalidProvider AuthProvider
  | MissingRequiredParameter
  | MissingServiceKeyAutoSign
  | MissingServiceKeyCustodial
  | AccountNotFoundInWallet "ChainAccount option"
  | FailedToConnect AuthProvider
  | InvalidChainNetwork ChainNetwork
  | ConfigNotRetrieved
  | ApiError string
  | WalletError string
  | TypeError

datatype RequestType = Get | Post

datatype ApiEndpoint =
    AddPermission
  | AppToken
  | CanAutoSign
  | CustodialSign
  | GetConfig
  | GetUser
  | TransactionSign

datatype jsval = JUndefined | JNull | JBool bool | JNum int | JStr string

record request =
  requestMethod :: RequestType
  endpoint :: ApiEndpoint
  params :: "(string \<times> jsval) list"
  processId :: "ProcessId option"

record UserPermission =
  up_chainAccount :: ChainAccount
  up_chainNetwork :: ChainNetwork
  up_permission :: PermissionName

record User =
  user_accountName :: AccountName
  user_permissions :: "UserPermission list"

record ChainHost =
  host_chainId :: string

record SettingChainNetwork =
  scn_network :: ChainNetwork
  scn_hosts :: "ChainHost list"

text \<open>
  The body of a response of the identity service, by shape. Reading a field of a body
  that is missing (\<open>DataEmpty\<close>) throws a \<open>TypeError\<close>; a field that a body of another
  shape does not have is \<open>undefined\<close>.
\<close>

datatype apiData =
    DataUser User
  | DataCanAutoSign "bool option" "ProcessId option"
  | DataSign "string option" "string option" "ProcessId option"
  | DataAppToken "string option"
  | DataConfig "SettingChainNetwork list option"
  | DataEmpty

record WalletPermission =
  wp_account :: "ChainAccount option"
  wp_name :: PermissionName
  wp_parent :: "PermissionName option"
  wp_publicKey :: PublicKey

subsection \<open>The wallet, the events, the world\<close>

record TransitAuth =
  auth_accountName :: ChainAccount
  auth_permission :: PermissionName
  auth_publicKey :: PublicKey

record DiscoveryAccount =
  da_account :: ChainAccount
  da_authorization :: PermissionName

record DiscoveryKey =
  dk_index :: nat
  dk_key :: PublicKey
  dk_accounts :: "DiscoveryAccount list"

datatype walletCall =
    WInit "string option"
  | WConnect
  | WLogin "ChainAccount option" "PermissionName option"
  | WLogout
  | WDiscover "nat list"

datatype event =
    Api request
  | Wallet walletCall
  | BusyCallback bool
  | Sleep nat
  | Log string
  | Unhandled error

text \<open>
  The mutable state: the wallet behind the provider, the fields of the \<open>OreId\<close>
  instance, the user record in \<open>localState\<close>, and the log of everything the engine
  did to its collaborators, oldest first.
\<close>

record 'w world =
  wallet :: 'w
  cachedUser :: "User option"
  cachedChainNetworks :: "SettingChainNetwork list option"
  transitAccessContexts :: "ChainNetwork list"
  isBusy :: "bool option"
  appAccessToken :: "string option"
  events :: "event list"

text \<open>A call of an async method whose promise nobody awaits.\<close>

definition detached :: "(error + 'a) \<times> 'w world \<Rightarrow> 'w world" where
  "detached r =
     (case r of
        (Inl e, W) \<Rightarrow> W\<lparr>events := events W @ [Unhandled e]\<rparr>
      | (Inr _, W) \<Rightarrow> W)"

subsection \<open>Options, constants, collaborators\<close>

text \<open>
  A Transit wallet-provider factory is represented by the \<open>id\<close> of the provider it
  makes when called with an empty configuration; a Universal-Authenticator provider by
  its \<open>name\<close>.
\<close>

record TransitWalletProviderFactory =
  made_id :: string

record UalProvider =
  ual_name :: string

record OreIdOptions =
  appId :: "string option"
  apiKey :: "string option"
  oreIdUrl :: "string option"
  serviceKey :: "string option"
  appName :: "string option"
  signCallbackUrl :: "string option"
  eosTransitWalletProviders :: "TransitWalletProviderFactory list option"
  ualProviders :: "UalProvider list option"
  setBusyCallback :: bool

text \<open>
  The sign request. A transaction is an object; it is represented by its text, and a
  transaction that is present counts as truthy and as not empty.
\<close>

record SignOptions =
  so_provider :: AuthProvider
  so_account :: "AccountName option"
  so_chainAccount :: "ChainAccount option"
  so_chainNetwork :: "ChainNetwork option"
  so_transaction :: "string option"
  so_signedTransaction :: "string option"
  so_processId :: "ProcessId option"
  so_broadcast :: "bool option"
  so_allowChainAccountSelection :: "bool option"
  so_expireSeconds :: "int option"
  so_returnSignedTransaction :: "bool option"
  so_userPassword :: "string option"
  so_signatureOnly :: "bool option"
  so_preventAutoSign :: "bool option"
  so_signExternalWithOreId :: "bool option"
  so_callbackUrl :: "string option"
  so_state :: "string option"

record SignResult =
  sr_processId :: "ProcessId option"
  sr_signedTransaction :: "string option"
  sr_transactionId :: "string option"

datatype SignReturn = Signed SignResult | SignUrl string

record TransitProviderAttributes =
  attr_providerId :: string
  attr_requiresLogin :: bool
  attr_supportsDiscovery :: "bool option"
  attr_supportsSignArbitrary :: bool
  attr_requiresLogoutLoginToDiscover :: bool
  attr_defaultDiscoveryPathIndexList :: "nat list option"

text \<open>
  The tables of \<open>./constants\<close> and the helpers of \<open>./helpers\<close> are not part
  of the sources at hand: the tables and \<open>base64Encode\<close> are
  parameters, and so is \<open>localState.accountName()\<close>, a function of the cached user.
  Two more parameters stand for what lies outside the engine: the text of the hosted
  sign URL, given the request and the access token (\<open>signUrlText\<close>), and the signing
  of a transaction by an external wallet (\<open>signWithNonOreIdProvider\<close>).
  The identity service answers a request knowing everything that happened
  before it; the wallet is a state \<open>'w\<close> with the operations and observable fields of
  an eos-transit wallet (\<open>w_init\<close> is \<open>initWallet\<close> on the provider that was found
  for the provider id, if any), and \<open>w_sleep\<close> is what happens to it during one 250 ms
  sleep of the engine.
\<close>

record 'w env =
  options :: OreIdOptions
  transitProviderAttributesData :: "AuthProvider \<Rightarrow> TransitProviderAttributes option"
  supportedTransitProviders :: "AuthProvider list"
  supportedUALProviders :: "AuthProvider list"
  providersNotImplemented :: "AuthProvider list"
  localAccountName :: "User option \<Rightarrow> AccountName option"
  api :: "event list \<Rightarrow> request \<Rightarrow> error + apiData"
  base64Encode :: "string \<Rightarrow> string"
  signUrlText :: "SignOptions \<Rightarrow> ChainAccount option \<Rightarrow> string option \<Rightarrow> string"
  signWithNonOreIdProvider ::
    "SignOptions \<Rightarrow> 'w world \<Rightarrow> (error + SignReturn option) \<times> 'w world"
  w_init :: "string option \<Rightarrow> 'w \<Rightarrow> error option \<times> 'w"
  w_connect :: "'w \<Rightarrow> error option \<times> 'w"
  w_login :: "ChainAccount option \<Rightarrow> PermissionName option \<Rightarrow> 'w \<Rightarrow> error option \<times> 'w"
  w_logout :: "'w \<Rightarrow> error option \<times> 'w"
  w_discover :: "nat list \<Rightarrow> 'w \<Rightarrow> (error + DiscoveryKey list) \<times> 'w"
  w_sleep :: "'w \<Rightarrow> 'w"
  w_auth :: "'w \<Rightarrow> TransitAuth option"
  w_connected :: "'w \<Rightarrow> bool"
  w_inProgress :: "'w \<Rightarrow> bool"
  w_chainId :: "'w \<Rightarrow> string option"

subsection \<open>Helpers\<close>

text \<open>
  Modelled from the spec: \<open>Helpers.isNullOrEmpty\<close> (\<open>./helpers\<close> is missing), true of
  \<open>null\<close>, \<open>undefined\<close>, the empty string and the empty array, as in "No-op if
  identityAccount, candidatePermissions, or chainNetwork is empty".
\<close>

definition isNullOrEmpty :: "'a list option \<Rightarrow> bool" where
  "isNullOrEmpty x = (case x of None \<Rightarrow> True | Some v \<Rightarrow> v = [])"

text \<open>JavaScript's \<open>!x\<close> on a string that may be \<open>null\<close> or \<open>undefined\<close>.\<close>

definition falsy :: "string option \<Rightarrow> bool" where
  "falsy x = (case x of None \<Rightarrow> True | Some v \<Rightarrow> v = [])"

text \<open>\<open>String.prototype.toLowerCase\<close> and \<open>includes\<close>, on ASCII.\<close>

definition lowerChar :: "char \<Rightarrow> char" where
  "lowerChar c =
     (case map_of (zip ''ABCDEFGHIJKLMNOPQRSTUVWXYZ'' ''abcdefghijklmnopqrstuvwxyz'') c of
        Some l \<Rightarrow> l
      | None \<Rightarrow> c)"

definition toLowerCase :: "string \<Rightarrow> string" where
  "toLowerCase s = map lowerChar s"

fun includes_str :: "string \<Rightarrow> string \<Rightarrow> bool" where
  "includes_str [] needle = (needle = [])"
| "includes_str (c # cs) needle = (prefix needle (c # cs) \<or> includes_str cs needle)"

subsection \<open>The identity-service client\<close>

text \<open>
  \<open>callOreIdApi\<close>: the request is handed to the HTTP client (and logged); a failure
  of the client is rethrown as an \<open>Error\<close> carrying the service's error codes or
  message.
\<close>

definition callOreIdApi ::
  "'w env \<Rightarrow> RequestType \<Rightarrow> ApiEndpoint \<Rightarrow> (string \<times> jsval) list \<Rightarrow> ProcessId option
     \<Rightarrow> 'w world \<Rightarrow> (error + apiData) \<times> 'w world" where
  "callOreIdApi E m ep ps pid W =
     (let r = \<lparr>requestMethod = m, endpoint = ep, params = ps, processId = pid\<rparr>
      in (api E (events W) r, W\<lparr>events := events W @ [Api r]\<rparr>))"

text \<open>
  Modelled from the spec: \<open>localState.saveUser\<close> and \<open>localState.user\<close>
  (\<open>./localState\<close> is missing), the "local persistent storage of the cached user
  record": what was saved last is what is read, \<open>null\<close> when the saved value is not a
  user record.
\<close>

definition saveUser :: "apiData \<Rightarrow> 'w world \<Rightarrow> 'w world" where
  "saveUser d W = W\<lparr>cachedUser := (case d of DataUser u \<Rightarrow> Some u | _ \<Rightarrow> None)\<rparr>"

definition getUserInfoFromApi ::
  "'w env \<Rightarrow> AccountName option \<Rightarrow> ProcessId option \<Rightarrow> 'w world \<Rightarrow> (error + unit) \<times> 'w world" where
  "getUserInfoFromApi E account pid W =
     (if \<not> isNullOrEmpty account then
        (case account of
           None \<Rightarrow> (Inr (), W)
         | Some a \<Rightarrow>
             (case callOreIdApi E Get GetUser [(''account'', JStr a)] pid W of
                (Inl e, W1) \<Rightarrow> (Inl e, W1)
              | (Inr d, W1) \<Rightarrow>
                  (case d of
                     DataEmpty \<Rightarrow> (Inl TypeError, W1)
                   | _ \<Rightarrow> (Inr (), saveUser d W1))))
      else (Inr (), W))"

definition getUser ::
  "'w env \<Rightarrow> AccountName option \<Rightarrow> bool \<Rightarrow> ProcessId option \<Rightarrow> 'w world
     \<Rightarrow> (error + User option) \<times> 'w world" where
  "getUser E accountName refresh pid W =
     (let cached =
        (if \<not> refresh then
           (case cachedUser W of
              None \<Rightarrow> None
            | Some u \<Rightarrow>
                if \<not> isNullOrEmpty accountName then
                  (if Some (user_accountName u) = accountName then Some u else None)
                else Some u)
         else None)
      in case cached of
           Some u \<Rightarrow> (Inr (Some u), W)
         | None \<Rightarrow>
             (case getUserInfoFromApi E accountName pid W of
                (Inl e, W1) \<Rightarrow> (Inl e, W1)
              | (Inr _, W1) \<Rightarrow> (Inr (cachedUser W1), W1)))"

definition addPermission ::
  "'w env \<Rightarrow> AccountName \<Rightarrow> ChainAccount \<Rightarrow> ChainNetwork \<Rightarrow> PublicKey \<Rightarrow> PermissionName
     \<Rightarrow> PermissionName \<Rightarrow> AuthProvider \<Rightarrow> ProcessId option \<Rightarrow> 'w world
     \<Rightarrow> (error + apiData) \<times> 'w world" where
  "addPermission E account chainAccount chainNetwork publicKey parentPermission permission
       provider pid W =
     (let optionalParams =
            (if provider \<noteq> [] then [(''wallet-type'', JStr provider)] else []) @
            (if parentPermission \<noteq> [] then [(''parent-permission'', JStr parentPermission)]
             else []);
          queryParams =
            [(''account'', JStr account),
             (''chain-account'', JStr chainAccount),
             (''chain-network'', JStr chainNetwork),
             (''public-key'', JStr publicKey),
             (''permission'', JStr permission)] @ optionalParams
      in callOreIdApi E Get AddPermission queryParams pid W)"

subsection \<open>The permission reconciler\<close>

text \<open>
  The callback that \<open>addWalletPermissionstoOreIdAccount\<close> maps over the wallet's
  permissions, in three parts: the parent permission it assumes, the test whether the
  permission is skipped, and the callback itself.
\<close>

definition parentPermissionFor :: "WalletPermission \<Rightarrow> PermissionName" where
  "parentPermissionFor p =
     (let permission = wp_name p; parentPermission = wp_parent p
      in if falsy parentPermission then
           (let parentPermission = ''active''
            in if permission = ''owner'' then []
               else if permission = ''active'' then ''owner''
               else parentPermission)
         else (case parentPermission of Some v \<Rightarrow> v | None \<Rightarrow> ''active''))"

definition skipThisPermission ::
  "User \<Rightarrow> ChainAccount \<Rightarrow> ChainNetwork \<Rightarrow> PermissionName \<Rightarrow> bool" where
  "skipThisPermission theUser chainAccount chainNetwork permission =
     list_ex
       (\<lambda>up. (up_chainAccount up = chainAccount \<and> up_chainNetwork up = chainNetwork \<and>
                up_permission up = permission) \<or> permission = ''owner'')
       (user_permissions theUser)"

definition walletPermissionCallback ::
  "'w env \<Rightarrow> User option \<Rightarrow> ChainAccount \<Rightarrow> ChainNetwork \<Rightarrow> AccountName \<Rightarrow> AuthProvider
     \<Rightarrow> WalletPermission \<Rightarrow> 'w world \<Rightarrow> (error + unit) \<times> 'w world" where
  "walletPermissionCallback E theUser chainAccount chainNetwork oreAccount provider p W =
     (let permission = wp_name p; parentPermission = parentPermissionFor p
      in case theUser of
           None \<Rightarrow> (Inl TypeError, W)
         | Some u \<Rightarrow>
             if skipThisPermission u chainAccount chainNetwork permission \<noteq> True then
               (case addPermission E oreAccount chainAccount chainNetwork (wp_publicKey p)
                       parentPermission permission provider None W of
                  (Inl e, W1) \<Rightarrow> (Inl e, W1)
                | (Inr _, W1) \<Rightarrow> (Inr (), W1))
             else (Inr (), W))"

text \<open>
  \<open>await walletPermissions.map(async p => ...)\<close> awaits an array, not the promises
  in it: every callback is started, in order, and none of their promises is awaited.
\<close>

definition addWalletPermissionstoOreIdAccount ::
  "'w env \<Rightarrow> ChainAccount \<Rightarrow> ChainNetwork option \<Rightarrow> WalletPermission list
     \<Rightarrow> AccountName option \<Rightarrow> AuthProvider \<Rightarrow> 'w world \<Rightarrow> (error + unit) \<times> 'w world" where
  "addWalletPermissionstoOreIdAccount E chainAccount chainNetwork walletPermissions oreAccount
       provider W =
     (if isNullOrEmpty oreAccount \<or> isNullOrEmpty (Some walletPermissions) \<or>
         isNullOrEmpty chainNetwork
      then (Inr (), W)
      else
        (case (oreAccount, chainNetwork) of
           (Some oreAcct, Some network) \<Rightarrow>
             (case getUser E oreAccount True None W of
                (Inl e, W1) \<Rightarrow> (Inl e, W1)
              | (Inr theUser, W1) \<Rightarrow>
                  (let W2 = foldl
                              (\<lambda>Wi p. detached (walletPermissionCallback E theUser
                                               chainAccount network oreAcct provider p Wi))
                              W1 walletPermissions
                   in case getUser E oreAccount True None W2 of
                        (Inl e, W3) \<Rightarrow> (Inl e, W3)
                      | (Inr _, W3) \<Rightarrow> (Inr (), W3)))
         | _ \<Rightarrow> (Inr (), W)))"

subsection \<open>Provider classification\<close>

definition isUALProvider :: "'w env \<Rightarrow> AuthProvider \<Rightarrow> bool" where
  "isUALProvider E provider =
     (if provider \<in> set (supportedUALProviders E) then
        (case ualProviders (options E) of
           Some us \<Rightarrow>
             find (\<lambda>ualProvider. toLowerCase (ual_name ualProvider) = toLowerCase provider) us
               \<noteq> None
         | None \<Rightarrow> False)
      else False)"

definition isTransitProvider :: "'w env \<Rightarrow> AuthProvider \<Rightarrow> bool" where
  "isTransitProvider E provider =
     (if provider \<in> set (supportedTransitProviders E) then \<not> isUALProvider E provider
      else False)"

text \<open>
  Reading a field of \<open>transitProviderAttributesData[provider]\<close> throws a
  \<open>TypeError\<close> when the table has no entry for the provider.
\<close>

definition defaultDiscoveryPathIndexList ::
  "'w env \<Rightarrow> AuthProvider \<Rightarrow> error + nat list option" where
  "defaultDiscoveryPathIndexList E provider =
     (if isTransitProvider E provider then
        (case transitProviderAttributesData E provider of
           None \<Rightarrow> Inl TypeError
         | Some attrs \<Rightarrow> Inr (attr_defaultDiscoveryPathIndexList attrs))
      else Inr None)"

definition discoverOptionsForProvider ::
  "'w env \<Rightarrow> AuthProvider \<Rightarrow> nat list option \<Rightarrow> error + nat list" where
  "discoverOptionsForProvider E provider inPathIndexList =
     (case defaultDiscoveryPathIndexList E provider of
        Inl e \<Rightarrow> Inl e
      | Inr dflt \<Rightarrow>
          (let pathIndexList =
                 (if \<not> isNullOrEmpty dflt then
                    (if \<not> isNullOrEmpty inPathIndexList then inPathIndexList else dflt)
                  else dflt)
           in if \<not> isNullOrEmpty pathIndexList then
                (case pathIndexList of Some l \<Rightarrow> Inr l | None \<Rightarrow> Inr [])
              else Inr []))"

definition needsDiscoverToLogin :: "'w env \<Rightarrow> AuthProvider \<Rightarrow> error + bool" where
  "needsDiscoverToLogin E provider =
     (case defaultDiscoveryPathIndexList E provider of
        Inl e \<Rightarrow> Inl e
      | Inr list \<Rightarrow> Inr (\<not> isNullOrEmpty list))"

record FoundAccount =
  found_index :: nat
  found_key :: PublicKey
  found_authorization :: PermissionName

definition findAccountInDiscoverData ::
  "DiscoveryKey list \<Rightarrow> ChainAccount option \<Rightarrow> FoundAccount option" where
  "findAccountInDiscoverData keyToAccountMap chainAccount =
     (case find (\<lambda>d. find (\<lambda>acct. Some (da_account acct) = chainAccount) (dk_accounts d) \<noteq> None)
             keyToAccountMap of
        Some result \<Rightarrow>
          (let authorization =
                 (case find (\<lambda>acct. da_authorization acct = ''active'') (dk_accounts result) of
                    Some active \<Rightarrow> ''active''
                  | None \<Rightarrow>
                      (case dk_accounts result of
                         first # _ \<Rightarrow> da_authorization first
                       | [] \<Rightarrow> ''active''))
           in Some \<lparr>found_index = dk_index result, found_key = dk_key result,
                    found_authorization = authorization\<rparr>)
      | None \<Rightarrow> None)"

subsection \<open>Wallet calls\<close>

definition walletLogin ::
  "'w env \<Rightarrow> ChainAccount option \<Rightarrow> PermissionName option \<Rightarrow> 'w world \<Rightarrow> (error + unit) \<times> 'w world" where
  "walletLogin E a p W =
     (case w_login E a p (wallet W) of
        (err, w') \<Rightarrow>
          (case err of Some e \<Rightarrow> Inl e | None \<Rightarrow> Inr (),
           W\<lparr>wallet := w', events := events W @ [Wallet (WLogin a p)]\<rparr>))"

definition walletLogout :: "'w env \<Rightarrow> 'w world \<Rightarrow> (error + unit) \<times> 'w world" where
  "walletLogout E W =
     (case w_logout E (wallet W) of
        (err, w') \<Rightarrow>
          (case err of Some e \<Rightarrow> Inl e | None \<Rightarrow> Inr (),
           W\<lparr>wallet := w', events := events W @ [Wallet WLogout]\<rparr>))"

definition walletConnect :: "'w env \<Rightarrow> 'w world \<Rightarrow> (error + unit) \<times> 'w world" where
  "walletConnect E W =
     (case w_connect E (wallet W) of
        (err, w') \<Rightarrow>
          (case err of Some e \<Rightarrow> Inl e | None \<Rightarrow> Inr (),
           W\<lparr>wallet := w', events := events W @ [Wallet WConnect]\<rparr>))"

definition walletDiscover ::
  "'w env \<Rightarrow> nat list \<Rightarrow> 'w world \<Rightarrow> (error + DiscoveryKey list) \<times> 'w world" where
  "walletDiscover E pathIndexList W =
     (case w_discover E pathIndexList (wallet W) of
        (r, w') \<Rightarrow> (r, W\<lparr>wallet := w', events := events W @ [Wallet (WDiscover pathIndexList)]\<rparr>))"

subsection \<open>The login reconciliation loop\<close>

text \<open>
  The first half of \<open>doTransitProviderLogin\<close>: one login of the wallet, after a
  discovery for the providers that are addressed by index.
\<close>

definition loginAttempt ::
  "'w env \<Rightarrow> ChainAccount option \<Rightarrow> AuthProvider \<Rightarrow> 'w world \<Rightarrow> (error + unit) \<times> 'w world" where
  "loginAttempt E chainAccount provider W =
     (case needsDiscoverToLogin E provider of
        Inl e \<Rightarrow> (Inl e, W)
      | Inr True \<Rightarrow>
          (case discoverOptionsForProvider E provider None of
             Inl e \<Rightarrow> (Inl e, W)
           | Inr pathIndexList \<Rightarrow>
               (case walletDiscover E pathIndexList W of
                  (Inl e, W1) \<Rightarrow> (Inl e, W1)
                | (Inr discoveryData, W1) \<Rightarrow>
                    (case findAccountInDiscoverData discoveryData chainAccount of
                       Some foundData \<Rightarrow>
                         walletLogin E chainAccount (Some (found_authorization foundData)) W1
                     | None \<Rightarrow> (Inl (AccountNotFoundInWallet chainAccount), W1))))
      | Inr False \<Rightarrow> walletLogin E chainAccount None W)"

definition transitAccountName :: "'w env \<Rightarrow> 'w world \<Rightarrow> ChainAccount option" where
  "transitAccountName E W = map_option auth_accountName (w_auth E (wallet W))"

text \<open>
  The recursive call at the end of \<open>doTransitProviderLogin\<close> is started and not
  awaited: the promise of the calling invocation resolves when the logout has completed,
  and the retry, which has just begun, goes on by itself. A wallet operation is recorded,
  and takes effect, when it completes; so the login of the retry is not yet part of the
  world in which the caller resumes.
\<close>

datatype detachedCall =
  DoTransitProviderLogin "ChainAccount option" AuthProvider nat

text \<open>
  One invocation: its outcome, the world in which its promise resolves, and the call it
  has left running, if any.
\<close>

definition doTransitProviderLogin ::
  "'w env \<Rightarrow> ChainAccount option \<Rightarrow> AuthProvider \<Rightarrow> nat \<Rightarrow> 'w world
     \<Rightarrow> (error + unit) \<times> 'w world \<times> detachedCall option" where
  "doTransitProviderLogin E chainAccount provider retryCount W =
     (case loginAttempt E chainAccount provider W of
        (Inl e, W1) \<Rightarrow> (Inl e, W1, None)
      | (Inr _, W1) \<Rightarrow>
          if retryCount > 2 then (Inr (), W1, None)
          else if \<not> falsy chainAccount \<and> transitAccountName E W1 \<noteq> chainAccount then
            (case walletLogout E W1 of
               (Inl e, W2) \<Rightarrow> (Inl e, W2, None)
             | (Inr _, W2) \<Rightarrow>
                 (Inr (), W2,
                  Some (DoTransitProviderLogin chainAccount provider (retryCount + 1))))
          else (Inr (), W1, None))"

text \<open>
  What a call that was left running does to the world when nothing else works on the
  wallet in the meantime: it runs like any invocation, a rejection of its promise is
  unhandled, and the call that it leaves running in its turn is run after it.
\<close>

function detachedRetries :: "'w env \<Rightarrow> detachedCall \<Rightarrow> 'w world \<Rightarrow> 'w world" where
  "detachedRetries E (DoTransitProviderLogin chainAccount provider retryCount) W =
     (case doTransitProviderLogin E chainAccount provider retryCount W of
        (Inl e, W1, _) \<Rightarrow> W1\<lparr>events := events W1 @ [Unhandled e]\<rparr>
      | (Inr _, W1, None) \<Rightarrow> W1
      | (Inr _, W1, Some retry) \<Rightarrow> detachedRetries E retry W1)"
  by pat_completeness auto
termination
  by (relation "measure (\<lambda>(E, call, W). case call of DoTransitProviderLogin _ _ n \<Rightarrow> 3 - n)")
     (auto simp: doTransitProviderLogin_def split: prod.splits sum.splits if_splits)

text \<open>
  The world once the retries that an invocation has left running have come to their end.
\<close>

definition settled ::
  "'w env \<Rightarrow> (error + unit) \<times> 'w world \<times> detachedCall option \<Rightarrow> 'w world" where
  "settled E r =
     (case r of
        (_, W1, None) \<Rightarrow> W1
      | (_, W1, Some retry) \<Rightarrow> detachedRetries E retry W1)"

subsection \<open>Construction\<close>

text \<open>
  \<open>validateOptions\<close> collects a line for each missing parameter; the error is
  represented by the names of the parameters it lists.
\<close>

definition validateOptions :: "OreIdOptions \<Rightarrow> error + OreIdOptions" where
  "validateOptions opts =
     (let errorMessage =
            (if falsy (appId opts) then [''appId''] else []) @
            (if falsy (apiKey opts) then [''apiKey''] else []) @
            (if falsy (oreIdUrl opts) then [''oreIdUrl''] else [])
      in if errorMessage \<noteq> [] then Inl (OptionsInvalid errorMessage) else Inr opts)"

text \<open>
  \<open>assertNoDuplicateProviders\<close> (\<open>validateProviders\<close> in the JavaScript source)
  is an async method: its \<open>throw\<close> rejects the promise it returns.
\<close>

definition assertNoDuplicateProviders :: "OreIdOptions \<Rightarrow> error + unit" where
  "assertNoDuplicateProviders opts =
     (if \<not> isNullOrEmpty (eosTransitWalletProviders opts) \<and> \<not> isNullOrEmpty (ualProviders opts)
      then
        (case (eosTransitWalletProviders opts, ualProviders opts) of
           (Some makers, Some uals) \<Rightarrow>
             (let duplicates =
                    filter
                      (\<lambda>transitProvider.
                         find (\<lambda>ualProvider.
                                 includes_str (toLowerCase transitProvider)
                                   (toLowerCase (ual_name ualProvider))) uals \<noteq> None)
                      (map made_id makers)
              in if \<not> isNullOrEmpty (Some duplicates) then Inl (DuplicateProviders duplicates)
                 else Inr ())
         | _ \<Rightarrow> Inr ())
      else Inr ())"

text \<open>
  The constructor: the fields are initialised (\<open>w\<close> is the wallet behind the providers,
  \<open>stored\<close> the user record that local storage holds), the options are validated, and
  \<open>assertNoDuplicateProviders\<close> is called without awaiting or catching its promise. The
  result is the validated options and the initial state of the instance.
\<close>

definition new_OreId :: "OreIdOptions \<Rightarrow> 'w \<Rightarrow> User option \<Rightarrow> error + OreIdOptions \<times> 'w world" where
  "new_OreId opts w stored =
     (let W0 = \<lparr>wallet = w, cachedUser = stored, cachedChainNetworks = None,
                transitAccessContexts = [], isBusy = None, appAccessToken = None, events = []\<rparr>
      in case validateOptions opts of
           Inl e \<Rightarrow> Inl e
         | Inr validated \<Rightarrow> Inr (validated, detached (assertNoDuplicateProviders validated, W0)))"

subsection \<open>Signing through the identity service\<close>

definition jsStr :: "string option \<Rightarrow> jsval" where
  "jsStr x = (case x of None \<Rightarrow> JUndefined | Some v \<Rightarrow> JStr v)"

definition jsBool :: "bool option \<Rightarrow> jsval" where
  "jsBool x = (case x of None \<Rightarrow> JUndefined | Some v \<Rightarrow> JBool v)"

definition isCustodial :: "AuthProvider \<Rightarrow> bool" where
  "isCustodial provider = (provider = ''custodial'')"

definition signFields :: "apiData \<Rightarrow> error + SignResult" where
  "signFields d =
     (case d of
        DataSign signedTransaction transactionId processIdReturned \<Rightarrow>
          Inr \<lparr>sr_processId = processIdReturned, sr_signedTransaction = signedTransaction,
               sr_transactionId = transactionId\<rparr>
      | DataEmpty \<Rightarrow> Inl TypeError
      | _ \<Rightarrow> Inr \<lparr>sr_processId = None, sr_signedTransaction = None, sr_transactionId = None\<rparr>)"

definition checkIfTrxAutoSignable ::
  "'w env \<Rightarrow> SignOptions \<Rightarrow> 'w world \<Rightarrow> (error + bool option) \<times> 'w world" where
  "checkIfTrxAutoSignable E signOptions W =
     (if falsy (serviceKey (options E)) then (Inl MissingServiceKeyAutoSign, W)
      else
        (let body =
               [(''account'', jsStr (so_account signOptions)),
                (''chain_account'', jsStr (so_chainAccount signOptions)),
                (''chain_network'', jsStr (so_chainNetwork signOptions)),
                (''transaction'',
                   case so_transaction signOptions of
                     Some t \<Rightarrow> JStr (base64Encode E t) | None \<Rightarrow> JNull),
                (''signed_transaction'',
                   case so_signedTransaction signOptions of
                     Some t \<Rightarrow> JStr (base64Encode E t) | None \<Rightarrow> JNull)]
         in case callOreIdApi E Post CanAutoSign body (so_processId signOptions) W of
              (Inl e, W1) \<Rightarrow> (Inl e, W1)
            | (Inr d, W1) \<Rightarrow>
                (case d of
                   DataCanAutoSign autoSignCredentialsExist processIdReturned \<Rightarrow>
                     (Inr autoSignCredentialsExist, W1)
                 | DataEmpty \<Rightarrow> (Inl TypeError, W1)
                 | _ \<Rightarrow> (Inr None, W1))))"

definition callSignTransaction ::
  "'w env \<Rightarrow> ApiEndpoint \<Rightarrow> SignOptions \<Rightarrow> bool \<Rightarrow> 'w world \<Rightarrow> (error + SignResult) \<times> 'w world" where
  "callSignTransaction E signEndpoint signOptions autoSign W =
     (let body =
            [(''account'', jsStr (so_account signOptions)),
             (''broadcast'', jsBool (so_broadcast signOptions)),
             (''chain_account'', jsStr (so_chainAccount signOptions)),
             (''chain_network'', jsStr (so_chainNetwork signOptions)),
             (''user_password'', jsStr (so_userPassword signOptions)),
             (''signature_only'', jsBool (so_signatureOnly signOptions))] @
            (if so_allowChainAccountSelection signOptions = Some True
             then [(''allow_chain_account_selection'', JBool True)] else []) @
            (if autoSign then [(''auto_sign'', JBool True)] else []) @
            (case so_expireSeconds signOptions of
               Some n \<Rightarrow> if n \<noteq> 0 then [(''expire_seconds'', JNum n)] else []
             | None \<Rightarrow> []) @
            (if so_returnSignedTransaction signOptions = Some True
             then [(''return_signed_transaction'', JBool True)] else []) @
            (case so_signedTransaction signOptions of
               Some t \<Rightarrow> [(''signed_transaction'', JStr (base64Encode E t))]
             | None \<Rightarrow> []) @
            (case so_transaction signOptions of
               Some t \<Rightarrow> [(''transaction'', JStr (base64Encode E t))]
             | None \<Rightarrow> [])
      in case callOreIdApi E Post signEndpoint body (so_processId signOptions) W of
           (Inl e, W1) \<Rightarrow> (Inl e, W1)
         | (Inr d, W1) \<Rightarrow> (signFields d, W1))"

definition autoSignTransaction ::
  "'w env \<Rightarrow> SignOptions \<Rightarrow> 'w world \<Rightarrow> (error + SignResult) \<times> 'w world" where
  "autoSignTransaction E signOptions W = callSignTransaction E TransactionSign signOptions True W"

definition getNewAppAccessToken ::
  "'w env \<Rightarrow> ProcessId option \<Rightarrow> 'w world \<Rightarrow> (error + unit) \<times> 'w world" where
  "getNewAppAccessToken E pid W =
     (case callOreIdApi E Post AppToken [(''newAccountPassword'', JUndefined)] pid W of
        (Inl e, W1) \<Rightarrow> (Inl e, W1)
      | (Inr d, W1) \<Rightarrow>
          (case d of
             DataAppToken token \<Rightarrow> (Inr (), W1\<lparr>appAccessToken := token\<rparr>)
           | DataEmpty \<Rightarrow> (Inl TypeError, W1)
           | _ \<Rightarrow> (Inr (), W1\<lparr>appAccessToken := None\<rparr>)))"

definition getAccessToken ::
  "'w env \<Rightarrow> ProcessId option \<Rightarrow> 'w world \<Rightarrow> (error + string option) \<times> 'w world" where
  "getAccessToken E pid W =
     (case getNewAppAccessToken E pid W of
        (Inl e, W1) \<Rightarrow> (Inl e, W1)
      | (Inr _, W1) \<Rightarrow> (Inr (appAccessToken W1), W1))"

definition getOreIdSignUrl ::
  "'w env \<Rightarrow> SignOptions \<Rightarrow> 'w world \<Rightarrow> (error + string) \<times> 'w world" where
  "getOreIdSignUrl E signOptions W =
     (if falsy (so_account signOptions) \<or> falsy (so_callbackUrl signOptions) \<or>
         (so_transaction signOptions = None \<and> so_signedTransaction signOptions = None)
      then (Inl MissingRequiredParameter, W)
      else
        (let chainAccount =
               (if falsy (so_chainAccount signOptions) then so_account signOptions
                else so_chainAccount signOptions)
         in case getAccessToken E (so_processId signOptions) W of
              (Inl e, W1) \<Rightarrow> (Inl e, W1)
            | (Inr token, W1) \<Rightarrow> (Inr (signUrlText E signOptions chainAccount token), W1)))"

definition signWithOreId ::
  "'w env \<Rightarrow> SignOptions \<Rightarrow> 'w world \<Rightarrow> (error + SignReturn) \<times> 'w world" where
  "signWithOreId E signOptions W =
     (let (canAutoSign, W1) =
            (case checkIfTrxAutoSignable E signOptions W of
               (Inl error, W1) \<Rightarrow> (False, W1)
             | (Inr r, W1) \<Rightarrow> (r = Some True, W1));
          preventAutoSign = (so_preventAutoSign signOptions = Some True)
      in if canAutoSign \<and> \<not> preventAutoSign then
           (case autoSignTransaction E signOptions W1 of
              (Inl e, W2) \<Rightarrow> (Inl e, W2)
            | (Inr r, W2) \<Rightarrow> (Inr (Signed r), W2))
         else
           (case getOreIdSignUrl E
                   (signOptions\<lparr>so_callbackUrl := signCallbackUrl (options E)\<rparr>) W1 of
              (Inl e, W2) \<Rightarrow> (Inl e, W2)
            | (Inr signUrl, W2) \<Rightarrow> (Inr (SignUrl signUrl), W2)))"

definition custodialSignWithOreId ::
  "'w env \<Rightarrow> SignOptions \<Rightarrow> 'w world \<Rightarrow> (error + SignResult) \<times> 'w world" where
  "custodialSignWithOreId E signOptions W =
     (if falsy (serviceKey (options E)) then (Inl MissingServiceKeyCustodial, W)
      else callSignTransaction E CustodialSign signOptions False W)"

text \<open>\<open>sign\<close>: the routing of a sign request; \<open>null\<close> is \<open>None\<close>.\<close>

definition sign ::
  "'w env \<Rightarrow> SignOptions \<Rightarrow> 'w world \<Rightarrow> (error + SignReturn option) \<times> 'w world" where
  "sign E signOptions W =
     (let provider = so_provider signOptions
      in if provider \<in> set (providersNotImplemented E) then (Inr None, W)
         else if isCustodial provider then
           (case custodialSignWithOreId E signOptions W of
              (Inl e, W1) \<Rightarrow> (Inl e, W1)
            | (Inr r, W1) \<Rightarrow> (Inr (Some (Signed r)), W1))
         else if (isUALProvider E provider \<or> isTransitProvider E provider) \<and>
                 so_signExternalWithOreId signOptions \<noteq> Some True then
           signWithNonOreIdProvider E signOptions W
         else
           (case signWithOreId E signOptions W of
              (Inl e, W1) \<Rightarrow> (Inl e, W1)
            | (Inr r, W1) \<Rightarrow> (Inr (Some r), W1)))"

subsection \<open>The busy flag and the chain directory\<close>

definition setIsBusy :: "'w env \<Rightarrow> bool \<Rightarrow> 'w world \<Rightarrow> 'w world" where
  "setIsBusy E v W =
     (if isBusy W \<noteq> Some v then
        (let W1 = W\<lparr>isBusy := Some v\<rparr>
         in if setBusyCallback (options E) then W1\<lparr>events := events W1 @ [BusyCallback v]\<rparr>
            else W1)
      else W)"

definition getConfigFromApi ::
  "'w env \<Rightarrow> 'w world \<Rightarrow> (error + SettingChainNetwork list) \<times> 'w world" where
  "getConfigFromApi E W =
     (case callOreIdApi E Get GetConfig [(''type'', JStr ''chains'')] None W of
        (Inl e, W1) \<Rightarrow> (Inl e, W1)
      | (Inr d, W1) \<Rightarrow>
          (case d of
             DataConfig (Some chainValues) \<Rightarrow> (Inr chainValues, W1)
           | _ \<Rightarrow> (Inl ConfigNotRetrieved, W1)))"

definition chainNetworks ::
  "'w env \<Rightarrow> 'w world \<Rightarrow> (error + SettingChainNetwork list) \<times> 'w world" where
  "chainNetworks E W =
     (case cachedChainNetworks W of
        Some networks \<Rightarrow> (Inr networks, W)
      | None \<Rightarrow>
          (case getConfigFromApi E W of
             (Inl e, W1) \<Rightarrow> (Inl e, W1)
           | (Inr chainValues, W1) \<Rightarrow>
               (Inr chainValues, W1\<lparr>cachedChainNetworks := Some chainValues\<rparr>)))"

definition getNetworkConfig ::
  "'w env \<Rightarrow> ChainNetwork \<Rightarrow> 'w world \<Rightarrow> (error + ChainHost) \<times> 'w world" where
  "getNetworkConfig E chainNetwork W =
     (case chainNetworks E W of
        (Inl e, W1) \<Rightarrow> (Inl e, W1)
      | (Inr networks, W1) \<Rightarrow>
          (case find (\<lambda>n. scn_network n = chainNetwork) networks of
             None \<Rightarrow> (Inl (InvalidChainNetwork chainNetwork), W1)
           | Some chainConfig \<Rightarrow>
               (case scn_hosts chainConfig of
                  [] \<Rightarrow> (Inl TypeError, W1)
                | h # _ \<Rightarrow> (Inr h, W1))))"

definition getOrCreateEosTransitAccessContext ::
  "'w env \<Rightarrow> ChainNetwork \<Rightarrow> 'w world \<Rightarrow> (error + unit) \<times> 'w world" where
  "getOrCreateEosTransitAccessContext E chainNetwork W =
     (if chainNetwork \<in> set (transitAccessContexts W) then (Inr (), W)
      else
        (case getNetworkConfig E chainNetwork W of
           (Inl e, W1) \<Rightarrow> (Inl e, W1)
         | (Inr NETWORK_CONFIG, W1) \<Rightarrow>
             (Inr (), W1\<lparr>transitAccessContexts := chainNetwork # transitAccessContexts W1\<rparr>)))"

definition getChainNetworkByChainId ::
  "'w env \<Rightarrow> string \<Rightarrow> 'w world \<Rightarrow> (error + ChainNetwork option) \<times> 'w world" where
  "getChainNetworkByChainId E chainId W =
     (case chainNetworks E W of
        (Inl e, W1) \<Rightarrow> (Inl e, W1)
      | (Inr networks, W1) \<Rightarrow>
          (case find (\<lambda>n. find (\<lambda>h. host_chainId h = chainId) (scn_hosts n) \<noteq> None) networks of
             Some chainConfig \<Rightarrow> (Inr (Some (scn_network chainConfig)), W1)
           | None \<Rightarrow> (Inr None, W1)))"

definition getChainNetworkFromTransitWallet ::
  "'w env \<Rightarrow> 'w world \<Rightarrow> (error + ChainNetwork option) \<times> 'w world" where
  "getChainNetworkFromTransitWallet E W =
     (case w_chainId E (wallet W) of
        Some chainId \<Rightarrow> getChainNetworkByChainId E chainId W
      | None \<Rightarrow> (Inr None, W))"

subsection \<open>Setting up a Transit wallet\<close>

definition sleep250 :: "'w env \<Rightarrow> 'w world \<Rightarrow> 'w world" where
  "sleep250 E W = W\<lparr>wallet := w_sleep E (wallet W), events := events W @ [Sleep 250]\<rparr>"

text \<open>
  The poll loop has no bound: it ends when the wallet stops being in progress, and
  \<open>None\<close> stands for a wallet that never does.
\<close>

partial_function (option) waitWhileWalletIsBusy :: "'w env \<Rightarrow> 'w world \<Rightarrow> 'w world option" where
  "waitWhileWalletIsBusy E W =
     (if w_inProgress E (wallet W) then waitWhileWalletIsBusy E (sleep250 E (setIsBusy E True W))
      else Some (setIsBusy E False W))"

declare waitWhileWalletIsBusy.simps [code]

definition walletInit :: "'w env \<Rightarrow> string option \<Rightarrow> 'w world \<Rightarrow> (error + unit) \<times> 'w world" where
  "walletInit E found W =
     (case w_init E found (wallet W) of
        (err, w') \<Rightarrow>
          (case err of Some e \<Rightarrow> Inl e | None \<Rightarrow> Inr (),
           W\<lparr>wallet := w', events := events W @ [Wallet (WInit found)]\<rparr>))"

definition setupTransitWallet ::
  "'w env \<Rightarrow> AuthProvider \<Rightarrow> ChainNetwork \<Rightarrow> 'w world \<Rightarrow> ((error + unit) \<times> 'w world) option" where
  "setupTransitWallet E provider chainNetwork W =
     (case transitProviderAttributesData E provider of
        None \<Rightarrow> Some (Inl TypeError, W)
      | Some attrs \<Rightarrow>
          (case getOrCreateEosTransitAccessContext E chainNetwork W of
             (Inl e, W1) \<Rightarrow> Some (Inl e, W1)
           | (Inr _, W1) \<Rightarrow>
               (let walletProviders =
                      (case eosTransitWalletProviders (options E) of
                         Some makers \<Rightarrow> map made_id makers | None \<Rightarrow> []);
                    transitProvider = find (\<lambda>wp. wp = attr_providerId attrs) walletProviders
                in case walletInit E transitProvider W1 of
                     (Inl e, W2) \<Rightarrow> Some (Inl e, W2)
                   | (Inr _, W2) \<Rightarrow>
                       (case walletConnect E W2 of
                          (Inl e, W3) \<Rightarrow>
                            Some (Inl (FailedToConnect provider),
                                  W3\<lparr>events := events W3 @ [Log ''Failed to connect'']\<rparr>)
                        | (Inr _, W3) \<Rightarrow>
                            (case waitWhileWalletIsBusy E W3 of
                               None \<Rightarrow> None
                             | Some W4 \<Rightarrow> Some (Inr (), W4))))))"

subsection \<open>Updating the permissions after a login\<close>

definition updatePermissionsIfNecessary ::
  "'w env \<Rightarrow> ChainAccount \<Rightarrow> WalletPermission list \<Rightarrow> string \<Rightarrow> AuthProvider
     \<Rightarrow> AccountName option \<Rightarrow> 'w world \<Rightarrow> (error + unit) \<times> 'w world" where
  "updatePermissionsIfNecessary E chainAccount permissions chainId provider oreAccount W =
     (let oreAcct = (if falsy oreAccount then localAccountName E (cachedUser W) else oreAccount)
      in if \<not> falsy oreAcct then
           (case getChainNetworkByChainId E chainId W of
              (Inl e, W1) \<Rightarrow> (Inl e, W1)
            | (Inr chainNetworkToUpdate, W1) \<Rightarrow>
                addWalletPermissionstoOreIdAccount E chainAccount chainNetworkToUpdate
                  permissions oreAcct provider W1)
         else (Inr (), W\<lparr>events := events W @ [Log ''oreAccount is null'']\<rparr>))"

definition updatePermissionsOnLogin ::
  "'w env \<Rightarrow> AuthProvider \<Rightarrow> AccountName option \<Rightarrow> 'w world \<Rightarrow> (error + unit) \<times> 'w world" where
  "updatePermissionsOnLogin E provider oreAccount W =
     (if w_connected E (wallet W) then
        (case w_auth E (wallet W) of
           None \<Rightarrow> (Inl TypeError, W)
         | Some auth \<Rightarrow>
             (let permissions =
                    [\<lparr>wp_account = None, wp_name = auth_permission auth, wp_parent = None,
                      wp_publicKey = auth_publicKey auth\<rparr>]
              in case w_chainId E (wallet W) of
                   Some chainId \<Rightarrow>
                     updatePermissionsIfNecessary E (auth_accountName auth) permissions chainId
                       provider oreAccount W
                 | None \<Rightarrow> (Inr (), W)))
      else (Inr (), W))"

subsection \<open>Discovery\<close>

definition assertValidProvider :: "'w env \<Rightarrow> AuthProvider \<Rightarrow> error + bool" where
  "assertValidProvider E provider =
     (case transitProviderAttributesData E provider of
        Some attrs \<Rightarrow> Inr True
      | None \<Rightarrow> Inl (InvalidProvider provider))"

definition canDiscover :: "'w env \<Rightarrow> AuthProvider \<Rightarrow> error + bool" where
  "canDiscover E provider =
     (if isUALProvider E provider then Inr False
      else if isTransitProvider E provider then
        (case transitProviderAttributesData E provider of
           None \<Rightarrow> Inl TypeError
         | Some attrs \<Rightarrow> Inr (attr_supportsDiscovery attrs = Some True))
      else Inr False)"

definition requiresLogoutLoginToDiscover :: "'w env \<Rightarrow> AuthProvider \<Rightarrow> error + bool" where
  "requiresLogoutLoginToDiscover E provider =
     (if isTransitProvider E provider then
        (case transitProviderAttributesData E provider of
           None \<Rightarrow> Inl TypeError
         | Some attrs \<Rightarrow> Inr (attr_requiresLogoutLoginToDiscover attrs))
      else Inr False)"

text \<open>The loop of \<open>discoverCredentialsInWallet\<close> over the keys the wallet reported.\<close>

fun addDiscoveredCredentials ::
  "'w env \<Rightarrow> AuthProvider \<Rightarrow> AccountName option \<Rightarrow> DiscoveryKey list \<Rightarrow> WalletPermission list
     \<Rightarrow> 'w world \<Rightarrow> (error + WalletPermission list) \<times> 'w world" where
  "addDiscoveredCredentials E provider oreAccount [] accountsAndPermissions W =
     (Inr accountsAndPermissions, W)"
| "addDiscoveredCredentials E provider oreAccount (credential # rest) accountsAndPermissions W =
     (case dk_accounts credential of
        [] \<Rightarrow> addDiscoveredCredentials E provider oreAccount rest accountsAndPermissions W
      | first # _ \<Rightarrow>
          (let permissions =
                 [\<lparr>wp_account = Some (da_account first), wp_name = da_authorization first,
                   wp_parent = None, wp_publicKey = dk_key credential\<rparr>]
           in case getChainNetworkFromTransitWallet E W of
                (Inl e, W1) \<Rightarrow> (Inl e, W1)
              | (Inr chainNetworkToUpdate, W1) \<Rightarrow>
                  (case addWalletPermissionstoOreIdAccount E (da_account first)
                          chainNetworkToUpdate permissions oreAccount provider W1 of
                     (Inl e, W2) \<Rightarrow> (Inl e, W2)
                   | (Inr _, W2) \<Rightarrow>
                       addDiscoveredCredentials E provider oreAccount rest
                         (accountsAndPermissions @ permissions) W2)))"

text \<open>The \<open>finally\<close> block of \<open>discoverCredentialsInWallet\<close>.\<close>

definition finallyNotBusy :: "'w env \<Rightarrow> (error + 'a) \<times> 'w world \<Rightarrow> (error + 'a) \<times> 'w world" where
  "finallyNotBusy E r = (fst r, setIsBusy E False (snd r))"

definition discoverCredentialsInWallet ::
  "'w env \<Rightarrow> ChainNetwork \<Rightarrow> AuthProvider \<Rightarrow> AccountName option \<Rightarrow> nat list option \<Rightarrow> 'w world
     \<Rightarrow> ((error + WalletPermission list) \<times> 'w world) option" where
  "discoverCredentialsInWallet E chainNetwork provider oreAccount discoveryPathIndexList W =
     (case setupTransitWallet E provider chainNetwork W of
        None \<Rightarrow> None
      | Some (Inl e, W1) \<Rightarrow> Some (finallyNotBusy E (Inl e, W1))
      | Some (Inr _, W1) \<Rightarrow>
          (let W2 = setIsBusy E True W1
           in case discoverOptionsForProvider E provider discoveryPathIndexList of
                Inl e \<Rightarrow> Some (finallyNotBusy E (Inl e, W2))
              | Inr pathIndexList \<Rightarrow>
                  (case walletDiscover E pathIndexList W2 of
                     (Inl e, W3) \<Rightarrow> Some (finallyNotBusy E (Inl e, W3))
                   | (Inr credentials, W3) \<Rightarrow>
                       Some (finallyNotBusy E
                               (addDiscoveredCredentials E provider oreAccount credentials []
                                  W3)))))"

record DiscoverOptions =
  do_provider :: AuthProvider
  do_chainNetwork :: "ChainNetwork option"
  do_oreAccount :: "AccountName option"
  do_discoveryPathIndexList :: "nat list option"

text \<open>
  \<open>discover\<close>; the result \<open>null\<close> is \<open>None\<close>. The promise of
  \<open>discoverCredentialsInWallet\<close> is returned, so its outcome is the outcome of
  \<open>discover\<close>; the promise of \<open>updatePermissionsOnLogin\<close> is not awaited.
\<close>

definition discover ::
  "'w env \<Rightarrow> DiscoverOptions \<Rightarrow> 'w world
     \<Rightarrow> ((error + WalletPermission list option) \<times> 'w world) option" where
  "discover E discoverOptions W =
     (let provider = do_provider discoverOptions;
          chainNetwork =
            (case do_chainNetwork discoverOptions of None \<Rightarrow> ''eos_main'' | Some n \<Rightarrow> n);
          oreAccount = do_oreAccount discoverOptions;
          discoveryPathIndexList = do_discoveryPathIndexList discoverOptions
      in case assertValidProvider E provider of
           Inl e \<Rightarrow> Some (Inl e, W)
         | Inr _ \<Rightarrow>
             (case canDiscover E provider of
                Inl e \<Rightarrow> Some (Inl e, W)
              | Inr True \<Rightarrow>
                  (case discoverCredentialsInWallet E chainNetwork provider oreAccount
                          discoveryPathIndexList W of
                     None \<Rightarrow> None
                   | Some (Inl e, W1) \<Rightarrow> Some (Inl e, W1)
                   | Some (Inr result, W1) \<Rightarrow> Some (Inr (Some result), W1))
              | Inr False \<Rightarrow>
                  (case setupTransitWallet E provider chainNetwork W of
                     None \<Rightarrow> None
                   | Some (Inl e, W1) \<Rightarrow> Some (Inl e, W1)
                   | Some (Inr _, W1) \<Rightarrow>
                       (case requiresLogoutLoginToDiscover E provider of
                          Inl e \<Rightarrow> Some (Inl e, W1)
                        | Inr True \<Rightarrow>
                            (case walletLogout E W1 of
                               (Inl e, W2) \<Rightarrow> Some (Inl e, W2)
                             | (Inr _, W2) \<Rightarrow>
                                 (case walletLogin E None None W2 of
                                    (Inl e, W3) \<Rightarrow> Some (Inl e, W3)
                                  | (Inr _, W3) \<Rightarrow>
                                      Some (Inr None,
                                            detached (updatePermissionsOnLogin E provider
                                                        oreAccount W3))))
                        | Inr False \<Rightarrow>
                            Some (Inr None,
                                  W1\<lparr>events := events W1 @
                                         [Log ''Discover not working for provider'']\<rparr>)))))"

subsection \<open>Reading the log\<close>

definition apiRequests :: "event list \<Rightarrow> request list" where
  "apiRequests evs = concat (map (\<lambda>e. case e of Api r \<Rightarrow> [r] | _ \<Rightarrow> []) evs)"

definition addPermissionRequests :: "event list \<Rightarrow> request list" where
  "addPermissionRequests evs = filter (\<lambda>r. endpoint r = AddPermission) (apiRequests evs)"

definition permissionNameOf :: "request \<Rightarrow> jsval option" where
  "permissionNameOf r = map_of (params r) ''permission''"

definition walletCalls :: "event list \<Rightarrow> walletCall list" where
  "walletCalls evs = concat (map (\<lambda>e. case e of Wallet c \<Rightarrow> [c] | _ \<Rightarrow> []) evs)"

definition isLogin :: "walletCall \<Rightarrow> bool" where
  "isLogin c = (case c of WLogin _ _ \<Rightarrow> True | _ \<Rightarrow> False)"

definition loginAttempts :: "event list \<Rightarrow> nat" where
  "loginAttempts evs = length (filter isLogin (walletCalls evs))"

subsection \<open>A concrete wallet and engine for the examples\<close>

text \<open>
  A wallet of the kind the comment before \<open>doTransitProviderLogin\<close> describes: it
  remembers one account and logs in with it whatever account is asked for. The wallet of
  the examples remembers \<open>wrongacct\<close>.
\<close>

record StickyWallet =
  sw_auth :: "TransitAuth option"
  sw_connected :: bool

definition stickyLogin :: "ChainAccount \<Rightarrow> StickyWallet \<Rightarrow> StickyWallet" where
  "stickyLogin remembered w =
     w\<lparr>sw_auth := Some \<lparr>auth_accountName = remembered, auth_permission = ''active'',
                         auth_publicKey = ''PUB1''\<rparr>\<rparr>"

definition exampleOptions :: OreIdOptions where
  "exampleOptions =
     \<lparr>appId = Some ''app'', apiKey = Some ''key'', oreIdUrl = Some ''https://service'',
      serviceKey = None, appName = Some ''demo'', signCallbackUrl = Some ''https://app/sign'',
      eosTransitWalletProviders = Some [\<lparr>made_id = ''scatter''\<rparr>, \<lparr>made_id = ''TokenPocket''\<rparr>],
      ualProviders = None, setBusyCallback = True\<rparr>"

definition scatterAttributes :: TransitProviderAttributes where
  "scatterAttributes =
     \<lparr>attr_providerId = ''scatter'', attr_requiresLogin = True,
      attr_supportsDiscovery = Some False, attr_supportsSignArbitrary = True,
      attr_requiresLogoutLoginToDiscover = False, attr_defaultDiscoveryPathIndexList = None\<rparr>"

definition tokenpocketAttributes :: TransitProviderAttributes where
  "tokenpocketAttributes =
     \<lparr>attr_providerId = ''TokenPocket'', attr_requiresLogin = True,
      attr_supportsDiscovery = Some False, attr_supportsSignArbitrary = True,
      attr_requiresLogoutLoginToDiscover = True, attr_defaultDiscoveryPathIndexList = None\<rparr>"

definition exampleUser :: "UserPermission list \<Rightarrow> User" where
  "exampleUser ps = \<lparr>user_accountName = ''idacct'', user_permissions = ps\<rparr>"

text \<open>
  The identity service of the examples answers every user request with \<open>u\<close>,
  hands out the access token \<open>token\<close> and knows the chain network \<open>eos_main\<close>.
\<close>

definition exampleApi :: "User \<Rightarrow> event list \<Rightarrow> request \<Rightarrow> error + apiData" where
  "exampleApi u evs r =
     (if endpoint r = GetUser then Inr (DataUser u)
      else if endpoint r = AppToken then Inr (DataAppToken (Some ''token''))
      else if endpoint r = GetConfig then
        Inr (DataConfig (Some [\<lparr>scn_network = ''eos_main'',
                                 scn_hosts = [\<lparr>host_chainId = ''chain1''\<rparr>]\<rparr>]))
      else Inr DataEmpty)"

definition exampleEnv :: "User \<Rightarrow> StickyWallet env" where
  "exampleEnv u =
     \<lparr>options = exampleOptions,
      transitProviderAttributesData =
        [''scatter'' \<mapsto> scatterAttributes, ''tokenpocket'' \<mapsto> tokenpocketAttributes],
      supportedTransitProviders = [''scatter'', ''tokenpocket''],
      supportedUALProviders = [],
      providersNotImplemented = [''metro''],
      localAccountName = map_option user_accountName,
      api = exampleApi u,
      base64Encode = id,
      signUrlText = (\<lambda>so chainAccount token. ''https://service/sign''),
      signWithNonOreIdProvider = (\<lambda>so W. (Inr None, W)),
      w_init = (\<lambda>found w. (None, w)),
      w_connect = (\<lambda>w. (None, w\<lparr>sw_connected := True\<rparr>)),
      w_login = (\<lambda>a p w. (None, stickyLogin ''wrongacct'' w)),
      w_logout = (\<lambda>w. (None, w\<lparr>sw_auth := None\<rparr>)),
      w_discover = (\<lambda>is w. (Inr [], w)),
      w_sleep = id,
      w_auth = sw_auth,
      w_connected = sw_connected,
      w_inProgress = (\<lambda>w. False),
      w_chainId = (\<lambda>w. Some ''chain1'')\<rparr>"

definition exampleWorld :: "StickyWallet world" where
  "exampleWorld =
     \<lparr>wallet = \<lparr>sw_auth = None, sw_connected = False\<rparr>,
      cachedUser = None, cachedChainNetworks = None, transitAccessContexts = [],
      isBusy = None, appAccessToken = None, events = []\<rparr>"

definition activeCandidate :: WalletPermission where
  "activeCandidate =
     \<lparr>wp_account = None, wp_name = ''active'', wp_parent = None, wp_publicKey = ''PUB1''\<rparr>"

definition ownerCandidate :: WalletPermission where
  "ownerCandidate =
     \<lparr>wp_account = None, wp_name = ''owner'', wp_parent = None, wp_publicKey = ''PUB1''\<rparr>"

definition activeRecord :: UserPermission where
  "activeRecord =
     \<lparr>up_chainAccount = ''acct1'', up_chainNetwork = ''eos_main'', up_permission = ''active''\<rparr>"

text \<open>The request by which \<open>getUserInfoFromApi\<close> loads the record of an account.\<close>

definition userRequest :: "AccountName \<Rightarrow> request" where
  "userRequest a =
     \<lparr>requestMethod = Get, endpoint = GetUser, params = [(''account'', JStr a)],
      processId = None\<rparr>"

definition unhandledRejections :: "event list \<Rightarrow> error list" where
  "unhandledRejections evs = concat (map (\<lambda>e. case e of Unhandled x \<Rightarrow> [x] | _ \<Rightarrow> []) evs)"

definition exampleSignOptions :: SignOptions where
  "exampleSignOptions =
     \<lparr>so_provider = ''google'', so_account = Some ''idacct'', so_chainAccount = None,
      so_chainNetwork = Some ''eos_main'', so_transaction = Some ''{transfer}'',
      so_signedTransaction = None, so_processId = None, so_broadcast = Some True,
      so_allowChainAccountSelection = None, so_expireSeconds = None,
      so_returnSignedTransaction = None, so_userPassword = None, so_signatureOnly = None,
      so_preventAutoSign = None, so_signExternalWithOreId = None, so_callbackUrl = None,
      so_state = None\<rparr>"

definition duplicateOptions :: OreIdOptions where
  "duplicateOptions =
     exampleOptions\<lparr>ualProviders := Some [\<lparr>ual_name = ''Scatter''\<rparr>]\<rparr>"

text \<open>An identity service that answers every request with the error \<open>serviceError\<close>.\<close>

definition failingApi :: "event list \<Rightarrow> request \<Rightarrow> error + apiData" where
  "failingApi evs r = Inl (ApiError ''serviceError'')"

definition signRequests :: "event list \<Rightarrow> request list" where
  "signRequests evs =
     filter (\<lambda>r. endpoint r = TransactionSign \<or> endpoint r = CustodialSign) (apiRequests evs)"

definition scatterDiscover :: DiscoverOptions where
  "scatterDiscover =
     \<lparr>do_provider = ''scatter'', do_chainNetwork = None, do_oreAccount = Some ''idacct'',
      do_discoveryPathIndexList = None\<rparr>"

text \<open>An identity service that rejects every add-permission request.\<close>

definition rejectingApi :: "User \<Rightarrow> event list \<Rightarrow> request \<Rightarrow> error + apiData" where
  "rejectingApi u evs r =
     (if endpoint r = AddPermission then Inl (ApiError ''rejected'') else exampleApi u evs r)"

section \<open>Properties\<close>

subsection \<open>What the reconciler sends\<close>

lemmas example_defs = exampleEnv_def exampleWorld_def exampleApi_def exampleUser_def
  exampleOptions_def activeCandidate_def ownerCandidate_def activeRecord_def scatterAttributes_def

lemmas reconciler_defs = addWalletPermissionstoOreIdAccount_def detached_def getUser_def
  getUserInfoFromApi_def callOreIdApi_def saveUser_def walletPermissionCallback_def
  addPermission_def skipThisPermission_def parentPermissionFor_def isNullOrEmpty_def falsy_def

lemma apiRequests_append: "apiRequests (xs @ ys) = apiRequests xs @ apiRequests ys"
  by (simp add: apiRequests_def)

lemma addPermissionRequests_append:
  "addPermissionRequests (xs @ ys) = addPermissionRequests xs @ addPermissionRequests ys"
  by (simp add: addPermissionRequests_def apiRequests_append)

lemma apiRequests_detached: "apiRequests (events (detached r)) = apiRequests (events (snd r))"
  by (cases r) (auto simp: detached_def apiRequests_def split: sum.splits)

lemma callOreIdApi_fst:
  "fst (callOreIdApi E m ep ps pid W) =
     api E (events W) \<lparr>requestMethod = m, endpoint = ep, params = ps, processId = pid\<rparr>"
  by (simp add: callOreIdApi_def Let_def)

lemma callOreIdApi_snd:
  "snd (callOreIdApi E m ep ps pid W) =
     W\<lparr>events := events W @ [Api \<lparr>requestMethod = m, endpoint = ep, params = ps, processId = pid\<rparr>]\<rparr>"
  by (simp add: callOreIdApi_def Let_def)

lemma addPermission_events:
  "\<exists>r. events (snd (addPermission E oa ca cn pk parent perm prov pid W)) = events W @ [Api r]
     \<and> endpoint r = AddPermission"
  by (simp add: addPermission_def Let_def callOreIdApi_snd)

lemma getUser_refresh_events:
  "a \<noteq> [] \<Longrightarrow>
   events (snd (getUser E (Some a) True None W)) = events W @ [Api (userRequest a)]"
  by (cases "callOreIdApi E Get GetUser [(''account'', JStr a)] None W")
     (use callOreIdApi_snd [of E Get GetUser "[(''account'', JStr a)]" None W] in
      \<open>auto simp: getUser_def getUserInfoFromApi_def isNullOrEmpty_def saveUser_def userRequest_def
         split: sum.splits apiData.splits\<close>)

lemma callback_skipped:
  "skipThisPermission u ca cn (wp_name p) \<Longrightarrow>
   detached (walletPermissionCallback E (Some u) ca cn oa prov p W) = W"
  by (simp add: walletPermissionCallback_def detached_def)

lemma callbacks_all_skipped:
  "\<forall>p \<in> set ps. skipThisPermission u ca cn (wp_name p) \<Longrightarrow>
   foldl (\<lambda>Wi p. detached (walletPermissionCallback E (Some u) ca cn oa prov p Wi)) W ps = W"
  by (induction ps arbitrary: W) (simp_all add: callback_skipped)

lemma callback_requests:
  "\<exists>adds. apiRequests (events (detached (walletPermissionCallback E tu ca cn oa prov p W)))
            = apiRequests (events W) @ adds
     \<and> (\<forall>r \<in> set adds. endpoint r = AddPermission)"
proof (cases "\<exists>u. tu = Some u \<and> \<not> skipThisPermission u ca cn (wp_name p)")
  case True
  then obtain u where u: "tu = Some u" "\<not> skipThisPermission u ca cn (wp_name p)" by blast
  let ?call = "addPermission E oa ca cn (wp_publicKey p) (parentPermissionFor p) (wp_name p) prov None W"
  have "snd (walletPermissionCallback E tu ca cn oa prov p W) = snd ?call"
    using u by (cases ?call) (auto simp: walletPermissionCallback_def split: sum.splits)
  then obtain r where r: "events (snd (walletPermissionCallback E tu ca cn oa prov p W)) = events W @ [Api r]"
      "endpoint r = AddPermission"
    using addPermission_events [of E oa ca cn "wp_publicKey p" "parentPermissionFor p" "wp_name p" prov None W]
    by auto
  show ?thesis
    by (rule exI [of _ "[r]"]) (simp add: r apiRequests_detached apiRequests_append, simp add: apiRequests_def)
next
  case False
  then have "snd (walletPermissionCallback E tu ca cn oa prov p W) = W"
    by (cases tu) (auto simp: walletPermissionCallback_def)
  then show ?thesis
    by (intro exI [of _ "[]"]) (simp add: apiRequests_detached)
qed

lemma callbacks_requests:
  "\<exists>adds. apiRequests (events (foldl (\<lambda>Wi p. detached (walletPermissionCallback E tu ca cn oa prov
              p Wi)) W ps))
            = apiRequests (events W) @ adds
     \<and> (\<forall>r \<in> set adds. endpoint r = AddPermission)"
proof (induction ps arbitrary: W)
  case Nil
  show ?case by (intro exI [of _ "[]"]) simp
next
  case (Cons p ps)
  let ?W1 = "detached (walletPermissionCallback E tu ca cn oa prov p W)"
  obtain a1 where a1: "apiRequests (events ?W1) = apiRequests (events W) @ a1"
      "\<forall>r \<in> set a1. endpoint r = AddPermission"
    using callback_requests [of E tu ca cn oa prov p W] by blast
  obtain a2 where a2: "apiRequests (events (foldl (\<lambda>Wi p. detached (walletPermissionCallback E tu ca cn
        oa prov p Wi)) ?W1 ps)) = apiRequests (events ?W1) @ a2"
      "\<forall>r \<in> set a2. endpoint r = AddPermission"
    using Cons.IH [of ?W1] by blast
  show ?case
    by (intro exI [of _ "a1 @ a2"]) (use a1 a2 in auto)
qed

lemma owner_skipped_when_record_nonempty:
  "user_permissions u \<noteq> [] \<Longrightarrow> skipThisPermission u ca cn ''owner''"
  by (cases "user_permissions u") (simp_all add: skipThisPermission_def)

lemma callback_sends_assumed_parent:
  assumes "\<not> skipThisPermission u ca cn (wp_name p)"
  shows "\<exists>r. apiRequests (events (detached (walletPermissionCallback E (Some u) ca cn oa prov p W)))
              = apiRequests (events W) @ [r] \<and>
             endpoint r = AddPermission \<and>
             map_of (params r) ''permission'' = Some (JStr (wp_name p)) \<and>
             map_of (params r) ''parent-permission'' =
               (if parentPermissionFor p = [] then None else Some (JStr (parentPermissionFor p)))"
  using assms
  by (auto simp: walletPermissionCallback_def addPermission_def callOreIdApi_def Let_def
      detached_def apiRequests_def split: sum.splits)

text \<open>
  C2 (the reconciler never submits an add-permission request for the permission
  \<open>owner\<close>) does not hold of the code. The test \<open>permission === 'owner'\<close> stands
  inside the callback of \<open>some\<close>, which is never called on an empty permission list: for
  a user record without permissions the candidate \<open>owner\<close> of account \<open>acct1\<close> on
  \<open>eos_main\<close> is submitted, although the comment above the test says "don't add 'owner'
  permission". With a non-empty record the candidate is skipped
  (\<open>owner_skipped_when_record_nonempty\<close>).
\<close>

theorem C2_owner_submitted_for_empty_record:
  "map permissionNameOf
     (addPermissionRequests (events (snd (addWalletPermissionstoOreIdAccount
        (exampleEnv (exampleUser [])) ''acct1'' (Some ''eos_main'') [ownerCandidate]
        (Some ''idacct'') ''scatter'' exampleWorld))))
   = [Some (JStr ''owner'')]"
  by (simp add: example_defs reconciler_defs addPermissionRequests_def apiRequests_def
      permissionNameOf_def)

text \<open>
  C3: the parent permission the reconciler assumes depends on the candidate alone. A
  candidate that carries a parent permission (a non-empty string; \<open>null\<close>,
  \<open>undefined\<close> and the empty string are what \<open>!parentPermission\<close> takes for none)
  keeps it; otherwise the parent is the empty string for \<open>owner\<close>, \<open>owner\<close> for
  \<open>active\<close> and \<open>active\<close> for every other permission name. (It is this value that
  the add-permission request of the candidate carries, whatever the user record and the
  state of the engine: \<open>callback_sends_assumed_parent\<close>.)
\<close>

theorem C3_parent_permission_inference:
  "(\<forall>v. wp_parent p = Some v \<and> v \<noteq> [] \<longrightarrow> parentPermissionFor p = v) \<and>
   (falsy (wp_parent p) \<longrightarrow>
      parentPermissionFor p =
        (if wp_name p = ''owner'' then ''''
         else if wp_name p = ''active'' then ''owner''
         else ''active''))"
  by (simp add: parentPermissionFor_def falsy_def)

text \<open>C3 at the candidates \<open>owner\<close>, \<open>active\<close>, \<open>custom\<close> and one with the parent \<open>admin\<close>.\<close>

theorem C3_parent_permission_inference_witness:
  "parentPermissionFor ownerCandidate = [] \<and>
   parentPermissionFor activeCandidate = ''owner'' \<and>
   parentPermissionFor (activeCandidate\<lparr>wp_name := ''custom''\<rparr>) = ''active'' \<and>
   parentPermissionFor (activeCandidate\<lparr>wp_parent := Some ''admin''\<rparr>) = ''admin''"
  using C3_parent_permission_inference [of ownerCandidate]
    C3_parent_permission_inference [of activeCandidate]
    C3_parent_permission_inference [of "activeCandidate\<lparr>wp_name := ''custom''\<rparr>"]
    C3_parent_permission_inference [of "activeCandidate\<lparr>wp_parent := Some ''admin''\<rparr>"]
  by (simp add: ownerCandidate_def activeCandidate_def falsy_def)

text \<open>
  C4: reconciliation is idempotent. When the user record that the reconciler loads
  already holds, for every candidate, a permission of the same chain account, chain
  network and permission name, the call submits no add-permission request at all: every
  candidate is skipped as already present.
\<close>

theorem C4_second_run_submits_nothing:
  assumes loaded: "fst (getUser E (Some oreAcct) True None W) = Inr (Some u)"
    and present: "\<forall>p \<in> set walletPermissions. \<exists>up \<in> set (user_permissions u).
             up_chainAccount up = chainAccount \<and> up_chainNetwork up = network \<and>
             up_permission up = wp_name p"
  shows "addPermissionRequests (events (snd (addWalletPermissionstoOreIdAccount E chainAccount
            (Some network) walletPermissions (Some oreAcct) provider W)))
         = addPermissionRequests (events W)"
proof (cases "oreAcct = [] \<or> walletPermissions = [] \<or> network = []")
  case True
  then show ?thesis
    by (auto simp: addWalletPermissionstoOreIdAccount_def isNullOrEmpty_def)
next
  case False
  have skip: "\<forall>p \<in> set walletPermissions. skipThisPermission u chainAccount network (wp_name p)"
    using present by (auto simp: skipThisPermission_def list_ex_iff)
  obtain r1 W1 where g1: "getUser E (Some oreAcct) True None W = (r1, W1)" by fastforce
  have r1: "r1 = Inr (Some u)"
    using loaded g1 by simp
  have e1: "events W1 = events W @ [Api (userRequest oreAcct)]"
    using getUser_refresh_events [of oreAcct E W] False g1 by simp
  obtain r2 W2 where g2: "getUser E (Some oreAcct) True None W1 = (r2, W2)" by fastforce
  have e2: "events W2 = events W1 @ [Api (userRequest oreAcct)]"
    using getUser_refresh_events [of oreAcct E W1] False g2 by simp
  have "events (snd (addWalletPermissionstoOreIdAccount E chainAccount
            (Some network) walletPermissions (Some oreAcct) provider W)) = events W2"
    using False g1 r1 g2
    by (auto simp: addWalletPermissionstoOreIdAccount_def isNullOrEmpty_def
        callbacks_all_skipped [OF skip] split: sum.splits)
  then show ?thesis
    by (simp add: e1 e2 addPermissionRequests_append)
       (simp add: addPermissionRequests_def apiRequests_def userRequest_def)
qed

text \<open>C4 for the candidate \<open>active\<close> of \<open>acct1\<close> on \<open>eos_main\<close>, already in the record.\<close>

theorem C4_second_run_submits_nothing_witness:
  "addPermissionRequests (events (snd (addWalletPermissionstoOreIdAccount
      (exampleEnv (exampleUser [activeRecord])) ''acct1'' (Some ''eos_main'') [activeCandidate]
      (Some ''idacct'') ''scatter'' exampleWorld))) = []"
proof -
  have loaded: "fst (getUser (exampleEnv (exampleUser [activeRecord])) (Some ''idacct'') True None
      exampleWorld) = Inr (Some (exampleUser [activeRecord]))"
    by (simp add: getUser_def getUserInfoFromApi_def callOreIdApi_def saveUser_def
        isNullOrEmpty_def exampleEnv_def exampleApi_def)
  have present: "\<forall>p \<in> set [activeCandidate].
      \<exists>up \<in> set (user_permissions (exampleUser [activeRecord])).
        up_chainAccount up = ''acct1'' \<and> up_chainNetwork up = ''eos_main'' \<and>
        up_permission up = wp_name p"
    by (simp add: exampleUser_def activeRecord_def activeCandidate_def)
  have "addPermissionRequests (events exampleWorld) = []"
    by (simp add: exampleWorld_def addPermissionRequests_def apiRequests_def)
  then show ?thesis
    using C4_second_run_submits_nothing [OF loaded present, where provider = "''scatter''"]
    by simp
qed

text \<open>
  With a non-empty identity account, candidate list and chain network, and a first load
  of the user record that succeeds, the reconciler sends, in this order, the load, the
  add-permission requests of the batch, and one more load of the user record.
\<close>

lemma reconciler_requests_in_order:
  assumes guard: "oreAcct \<noteq> []" "walletPermissions \<noteq> []" "network \<noteq> []"
    and loaded: "fst (getUser E (Some oreAcct) True None W) = Inr theUser"
  shows "\<exists>adds.
           apiRequests (events (snd (addWalletPermissionstoOreIdAccount E chainAccount
                     (Some network) walletPermissions (Some oreAcct) provider W)))
             = apiRequests (events W) @ [userRequest oreAcct] @ adds @ [userRequest oreAcct]
           \<and> (\<forall>r \<in> set adds. endpoint r = AddPermission)"
proof -
  obtain r1 W1 where g1: "getUser E (Some oreAcct) True None W = (r1, W1)" by fastforce
  have r1: "r1 = Inr theUser"
    using loaded g1 by simp
  have e1: "events W1 = events W @ [Api (userRequest oreAcct)]"
    using getUser_refresh_events [of oreAcct E W] guard g1 by simp
  let ?W2 = "foldl (\<lambda>Wi p. detached (walletPermissionCallback E theUser chainAccount network
                oreAcct provider p Wi)) W1 walletPermissions"
  obtain adds where adds: "apiRequests (events ?W2) = apiRequests (events W1) @ adds"
      "\<forall>r \<in> set adds. endpoint r = AddPermission"
    using callbacks_requests [of E theUser chainAccount network oreAcct provider W1
        walletPermissions]
    by blast
  obtain r3 W3 where g3: "getUser E (Some oreAcct) True None ?W2 = (r3, W3)" by fastforce
  have e3: "events W3 = events ?W2 @ [Api (userRequest oreAcct)]"
    using getUser_refresh_events [of oreAcct E ?W2] guard g3 by simp
  have "events (snd (addWalletPermissionstoOreIdAccount E chainAccount
            (Some network) walletPermissions (Some oreAcct) provider W)) = events W3"
    using guard g1 r1 g3
    by (auto simp: addWalletPermissionstoOreIdAccount_def isNullOrEmpty_def Let_def
        split: sum.splits)
  then have "apiRequests (events (snd (addWalletPermissionstoOreIdAccount E chainAccount
            (Some network) walletPermissions (Some oreAcct) provider W)))
      = apiRequests (events W) @ [userRequest oreAcct] @ adds @ [userRequest oreAcct]"
    using adds(1) by (simp add: e1 e3 apiRequests_append) (simp add: apiRequests_def)
  then show ?thesis
    using adds(2) by blast
qed

text \<open>
  C9 does not hold of the code. The callbacks that submit the candidates are started by
  \<open>walletPermissions.map(async ..)\<close>, and the \<open>await\<close> before it is applied to the
  array of their promises, which waits for none of them. With one candidate \<open>active\<close>,
  an empty user record and a service that rejects the add-permission request, the
  rejection reaches nobody: the reconciler sends its final refresh all the same and
  returns normally, so the refresh is not held back until the submissions have completed.
\<close>

theorem C9_refresh_does_not_wait_for_submissions:
  "fst (addWalletPermissionstoOreIdAccount ((exampleEnv (exampleUser []))\<lparr>api := rejectingApi (exampleUser [])\<rparr>)
          ''acct1'' (Some ''eos_main'') [activeCandidate] (Some ''idacct'') ''scatter''
          exampleWorld) = Inr () \<and>
   unhandledRejections (events (snd (addWalletPermissionstoOreIdAccount
          ((exampleEnv (exampleUser []))\<lparr>api := rejectingApi (exampleUser [])\<rparr>)
          ''acct1'' (Some ''eos_main'') [activeCandidate] (Some ''idacct'') ''scatter''
          exampleWorld))) = [ApiError ''rejected''] \<and>
   map endpoint (apiRequests (events (snd (addWalletPermissionstoOreIdAccount
          ((exampleEnv (exampleUser []))\<lparr>api := rejectingApi (exampleUser [])\<rparr>)
          ''acct1'' (Some ''eos_main'') [activeCandidate] (Some ''idacct'') ''scatter''
          exampleWorld)))) = [GetUser, AddPermission, GetUser]"
  by (simp add: example_defs reconciler_defs rejectingApi_def unhandledRejections_def
      apiRequests_def)

subsection \<open>The login reconciliation loop\<close>

lemma walletCalls_append: "walletCalls (xs @ ys) = walletCalls xs @ walletCalls ys"
  by (simp add: walletCalls_def)

lemma loginAttempts_append: "loginAttempts (xs @ ys) = loginAttempts xs + loginAttempts ys"
  by (simp add: loginAttempts_def walletCalls_append)

lemma walletLogin_attempts:
  "loginAttempts (events (snd (walletLogin E a p W))) = loginAttempts (events W) + 1"
  by (cases "w_login E a p (wallet W)")
     (simp add: walletLogin_def loginAttempts_append, simp add: loginAttempts_def walletCalls_def isLogin_def)

lemma walletLogout_attempts:
  "loginAttempts (events (snd (walletLogout E W))) = loginAttempts (events W)"
  by (cases "w_logout E (wallet W)")
     (simp add: walletLogout_def loginAttempts_append, simp add: loginAttempts_def walletCalls_def isLogin_def)

lemma walletDiscover_attempts:
  "loginAttempts (events (snd (walletDiscover E l W))) = loginAttempts (events W)"
  by (cases "w_discover E l (wallet W)")
     (simp add: walletDiscover_def loginAttempts_append, simp add: loginAttempts_def walletCalls_def isLogin_def)

lemma loginAttempt_attempts:
  "loginAttempts (events (snd (loginAttempt E chainAccount provider W))) \<le> loginAttempts (events W) + 1"
proof (cases "needsDiscoverToLogin E provider")
  case (Inl e)
  then show ?thesis by (simp add: loginAttempt_def)
next
  case (Inr b)
  show ?thesis
  proof (cases b)
    case False
    with Inr show ?thesis
      by (simp add: loginAttempt_def walletLogin_attempts)
  next
    case True
    show ?thesis
    proof (cases "discoverOptionsForProvider E provider None")
      case (Inl e)
      with Inr True show ?thesis by (simp add: loginAttempt_def)
    next
      case opts: (Inr l)
      obtain r W1 where d: "walletDiscover E l W = (r, W1)" by fastforce
      have W1: "loginAttempts (events W1) = loginAttempts (events W)"
        using walletDiscover_attempts [of E l W] d by simp
      show ?thesis
        using Inr True opts d W1 walletLogin_attempts [of E _ _ W1]
        by (auto simp: loginAttempt_def split: sum.splits option.splits)
    qed
  qed
qed


lemma doTransitProviderLogin_attempts:
  "loginAttempts (events (fst (snd (doTransitProviderLogin E chainAccount provider retryCount W))))
     \<le> loginAttempts (events W) + 1"
proof -
  obtain x W1 where la: "loginAttempt E chainAccount provider W = (x, W1)" by fastforce
  have a1: "loginAttempts (events W1) \<le> loginAttempts (events W) + 1"
    using loginAttempt_attempts [of E chainAccount provider W] la by simp
  obtain xa W2 where lo: "walletLogout E W1 = (xa, W2)" by fastforce
  have a2: "loginAttempts (events W2) = loginAttempts (events W1)"
    using walletLogout_attempts [of E W1] lo by simp
  show ?thesis
    using la lo a1 a2 by (auto simp: doTransitProviderLogin_def split: sum.splits)
qed

lemma doTransitProviderLogin_retry:
  assumes "doTransitProviderLogin E chainAccount provider retryCount W = (r, W1, Some retry)"
  shows "retry = DoTransitProviderLogin chainAccount provider (retryCount + 1)"
    and "\<not> 2 < retryCount" and "r = Inr ()"
  using assms
  by (auto simp: doTransitProviderLogin_def split: prod.splits sum.splits if_splits)

lemma loginAttempts_unhandled: "loginAttempts (evs @ [Unhandled e]) = loginAttempts evs"
  by (simp add: loginAttempts_def walletCalls_def)

lemma detachedRetries_attempts:
  "loginAttempts (events (detachedRetries E (DoTransitProviderLogin chainAccount provider
       retryCount) W))
     \<le> loginAttempts (events W) + max 1 (4 - retryCount)"
proof (induction k \<equiv> "3 - retryCount" arbitrary: retryCount W)
  case 0
  obtain r W1 pending where d:
    "doTransitProviderLogin E chainAccount provider retryCount W = (r, W1, pending)"
    by (cases "doTransitProviderLogin E chainAccount provider retryCount W") auto
  have a: "loginAttempts (events W1) \<le> loginAttempts (events W) + 1"
    using doTransitProviderLogin_attempts [of E chainAccount provider retryCount W] d by simp
  have "pending = None"
    using doTransitProviderLogin_retry(2) [of E chainAccount provider retryCount W r W1] d 0
    by (cases pending) auto
  then show ?case
    using d a by (cases r) (simp_all add: loginAttempts_unhandled)
next
  case (Suc k)
  obtain r W1 pending where d:
    "doTransitProviderLogin E chainAccount provider retryCount W = (r, W1, pending)"
    by (cases "doTransitProviderLogin E chainAccount provider retryCount W") auto
  have a: "loginAttempts (events W1) \<le> loginAttempts (events W) + 1"
    using doTransitProviderLogin_attempts [of E chainAccount provider retryCount W] d by simp
  show ?case
  proof (cases pending)
    case None
    then show ?thesis
      using d a by (cases r) (simp_all add: loginAttempts_unhandled)
  next
    case (Some retry)
    have retry: "retry = DoTransitProviderLogin chainAccount provider (retryCount + 1)"
      and cap: "\<not> 2 < retryCount" and r: "r = Inr ()"
      using doTransitProviderLogin_retry [OF d [unfolded Some]] by simp_all
    have "loginAttempts (events (detachedRetries E (DoTransitProviderLogin chainAccount provider
              (retryCount + 1)) W1))
            \<le> loginAttempts (events W1) + max 1 (4 - (retryCount + 1))"
      using Suc.hyps(1) [of "retryCount + 1" W1] Suc.hyps(2) by simp
    then show ?thesis
      using d Some retry r a cap by simp
  qed
qed

lemma settled_attempts:
  "loginAttempts (events (settled E (doTransitProviderLogin E chainAccount provider retryCount W)))
     = loginAttempts (events (detachedRetries E (DoTransitProviderLogin chainAccount provider
          retryCount) W))"
proof -
  obtain r W1 pending where d:
    "doTransitProviderLogin E chainAccount provider retryCount W = (r, W1, pending)"
    by (cases "doTransitProviderLogin E chainAccount provider retryCount W") auto
  show ?thesis
  proof (cases pending)
    case None
    then show ?thesis
      using d by (cases r) (simp_all add: settled_def loginAttempts_unhandled)
  next
    case (Some retry)
    then have "r = Inr ()"
      using doTransitProviderLogin_retry(3) [of E chainAccount provider retryCount W r W1 retry] d
      by simp
    then show ?thesis
      using d Some by (simp add: settled_def)
  qed
qed

text \<open>
  C1, amended: the loop logs in at most four times, the first attempt and three retries.
  An invocation with retry count \<open>n\<close> has added at most \<open>4 - n\<close> logins (one when \<open>n\<close>
  is beyond the cap) when its promise resolves, and no more than that once the retries
  it left running have come to their end, whatever the wallet answers.
\<close>

theorem C1_at_most_four_logins:
  "loginAttempts (events (fst (snd (doTransitProviderLogin E chainAccount provider retryCount W))))
     \<le> loginAttempts (events W) + max 1 (4 - retryCount) \<and>
   loginAttempts (events (settled E (doTransitProviderLogin E chainAccount provider retryCount W)))
     \<le> loginAttempts (events W) + max 1 (4 - retryCount)"
proof
  have "loginAttempts (events (fst (snd (doTransitProviderLogin E chainAccount provider
            retryCount W)))) \<le> loginAttempts (events W) + 1"
    by (rule doTransitProviderLogin_attempts)
  then show "loginAttempts (events (fst (snd (doTransitProviderLogin E chainAccount provider
            retryCount W)))) \<le> loginAttempts (events W) + max 1 (4 - retryCount)"
    by simp
next
  show "loginAttempts (events (settled E (doTransitProviderLogin E chainAccount provider
            retryCount W))) \<le> loginAttempts (events W) + max 1 (4 - retryCount)"
    using detachedRetries_attempts [of E chainAccount provider retryCount W]
    by (simp add: settled_attempts)
qed

lemmas login_defs = doTransitProviderLogin_def settled_def loginAttempt_def
  needsDiscoverToLogin_def defaultDiscoveryPathIndexList_def isTransitProvider_def
  isUALProvider_def walletLogin_def walletLogout_def transitAccountName_def stickyLogin_def
  falsy_def isNullOrEmpty_def

text \<open>
  C1 as stated (never more than three logins) fails: the cap \<open>retryCount > 2\<close> is tested
  after the login, so a wallet that keeps logging in with \<open>wrongacct\<close> while
  \<open>rightacct\<close> is asked for is logged in four times, for the retry counts 0, 1, 2 and 3.
\<close>

theorem C1_four_logins_on_sticky_wallet:
  "loginAttempts (events (settled (exampleEnv (exampleUser []))
      (doTransitProviderLogin (exampleEnv (exampleUser []))
         (Some ''rightacct'') ''scatter'' 0 exampleWorld))) = 4"
  by (simp add: login_defs example_defs loginAttempts_def walletCalls_def isLogin_def)

text \<open>C1 (amended) on that wallet: no more than four logins.\<close>

theorem C1_at_most_four_logins_witness:
  "loginAttempts (events (settled (exampleEnv (exampleUser []))
      (doTransitProviderLogin (exampleEnv (exampleUser []))
         (Some ''rightacct'') ''scatter'' 0 exampleWorld))) \<le> 4"
  using C1_at_most_four_logins [of "exampleEnv (exampleUser [])" "Some ''rightacct''"
      "''scatter''" 0 exampleWorld]
  by (simp add: exampleWorld_def loginAttempts_def walletCalls_def)

text \<open>
  C8 does not hold of the code. The retry is started without \<open>await\<close>, so the loop does
  not return after it has exhausted its cap, with the account of the last login active:
  on the wallet that stays on \<open>wrongacct\<close> while \<open>rightacct\<close> is asked for, the promise
  of \<open>doTransitProviderLogin\<close> resolves (normally) as soon as the first login has been
  followed by the logout. At that moment no account is active and the first retry is
  still running. It is only when the retries left running have come to their end, which
  nobody waits for, that \<open>wrongacct\<close> is the active account.
\<close>

theorem C8_returns_after_first_logout:
  "fst (doTransitProviderLogin (exampleEnv (exampleUser [])) (Some ''rightacct'') ''scatter'' 0
          exampleWorld) = Inr () \<and>
   transitAccountName (exampleEnv (exampleUser []))
     (fst (snd (doTransitProviderLogin (exampleEnv (exampleUser [])) (Some ''rightacct'')
          ''scatter'' 0 exampleWorld))) = None \<and>
   snd (snd (doTransitProviderLogin (exampleEnv (exampleUser [])) (Some ''rightacct'')
          ''scatter'' 0 exampleWorld))
     = Some (DoTransitProviderLogin (Some ''rightacct'') ''scatter'' 1) \<and>
   transitAccountName (exampleEnv (exampleUser []))
     (settled (exampleEnv (exampleUser []))
        (doTransitProviderLogin (exampleEnv (exampleUser [])) (Some ''rightacct'')
           ''scatter'' 0 exampleWorld)) = Some ''wrongacct''"
  by (simp add: login_defs example_defs)

subsection \<open>Construction\<close>

lemma assertNoDuplicateProviders_detects:
  assumes "eosTransitWalletProviders opts = Some makers" "ualProviders opts = Some uals"
    and "m \<in> set makers" "u \<in> set uals"
    and "includes_str (toLowerCase (made_id m)) (toLowerCase (ual_name u))"
  shows "\<exists>duplicates. assertNoDuplicateProviders opts = Inl (DuplicateProviders duplicates) \<and>
           made_id m \<in> set duplicates"
proof -
  define duplicates where "duplicates =
    filter (\<lambda>transitProvider. find (\<lambda>ualProvider. includes_str (toLowerCase transitProvider)
                  (toLowerCase (ual_name ualProvider))) uals \<noteq> None) (map made_id makers)"
  have "find (\<lambda>ualProvider. includes_str (toLowerCase (made_id m))
                  (toLowerCase (ual_name ualProvider))) uals \<noteq> None"
    using assms(4,5) by (auto simp: find_None_iff)
  then have member: "made_id m \<in> set duplicates"
    using assms(3) by (simp add: duplicates_def)
  then have nonempty: "duplicates \<noteq> []"
    by (cases duplicates) simp_all
  have "makers \<noteq> []" "uals \<noteq> []"
    using assms(3,4) by auto
  then have "assertNoDuplicateProviders opts = Inl (DuplicateProviders duplicates)"
    using assms(1,2) nonempty
    by (simp add: assertNoDuplicateProviders_def isNullOrEmpty_def Let_def duplicates_def)
  then show ?thesis
    using member by blast
qed

lemma new_OreId_fails_only_on_options:
  "new_OreId opts w stored = Inl e \<Longrightarrow> \<exists>missing. e = OptionsInvalid missing"
  by (auto simp: new_OreId_def validateOptions_def Let_def split: if_splits)

text \<open>
  C5 (construction fails with the duplicate-provider error) does not hold of the code.
  The check itself finds the Transit provider \<open>scatter\<close> next to the
  Universal-Authenticator provider \<open>Scatter\<close>, but it is an async method that the
  constructor calls without awaiting: its \<open>throw\<close> rejects a promise that nobody holds,
  and the constructor returns the instance.
\<close>

theorem C5_duplicate_providers_do_not_stop_construction:
  "assertNoDuplicateProviders duplicateOptions = Inl (DuplicateProviders [''scatter'']) \<and>
   new_OreId duplicateOptions (wallet exampleWorld) None =
     Inr (duplicateOptions,
          exampleWorld\<lparr>events := [Unhandled (DuplicateProviders [''scatter''])]\<rparr>)"
  by (simp add: new_OreId_def validateOptions_def assertNoDuplicateProviders_def detached_def
      duplicateOptions_def exampleOptions_def exampleWorld_def falsy_def isNullOrEmpty_def
      toLowerCase_def lowerChar_def)

subsection \<open>Signing\<close>

lemma custodialSignWithOreId_without_service_key:
  "falsy (serviceKey (options E)) \<Longrightarrow>
   custodialSignWithOreId E signOptions W = (Inl MissingServiceKeyCustodial, W)"
  by (simp add: custodialSignWithOreId_def)

text \<open>
  C7: a sign request for the provider \<open>custodial\<close> (which is not in the table of
  providers that are not implemented), with no service key in the options, fails with
  the missing-service-key error and leaves the world as it was: nothing was sent to the
  identity service.
\<close>

theorem C7_custodial_sign_without_service_key:
  assumes "so_provider signOptions = ''custodial''"
    and "''custodial'' \<notin> set (providersNotImplemented E)"
    and "falsy (serviceKey (options E))"
  shows "sign E signOptions W = (Inl MissingServiceKeyCustodial, W)"
  using assms by (simp add: sign_def isCustodial_def custodialSignWithOreId_def)

text \<open>C7 for the engine of the examples, which has no service key.\<close>

theorem C7_custodial_sign_without_service_key_witness:
  "sign (exampleEnv (exampleUser [])) (exampleSignOptions\<lparr>so_provider := ''custodial''\<rparr>)
     exampleWorld = (Inl MissingServiceKeyCustodial, exampleWorld)"
  using C7_custodial_sign_without_service_key
    [of "exampleSignOptions\<lparr>so_provider := ''custodial''\<rparr>" "exampleEnv (exampleUser [])"
       exampleWorld]
  by (simp add: exampleEnv_def exampleOptions_def falsy_def)

lemma signRequests_append: "signRequests (xs @ ys) = signRequests xs @ signRequests ys"
  by (simp add: signRequests_def apiRequests_append)

lemma checkIfTrxAutoSignable_signRequests:
  "signRequests (events (snd (checkIfTrxAutoSignable E signOptions W))) = signRequests (events W)"
  by (auto simp: checkIfTrxAutoSignable_def callOreIdApi_def Let_def signRequests_append
      split: sum.splits apiData.splits)
     (simp_all add: signRequests_def apiRequests_def)

lemma getOreIdSignUrl_signRequests:
  "signRequests (events (snd (getOreIdSignUrl E signOptions W))) = signRequests (events W)"
  by (auto simp: getOreIdSignUrl_def getAccessToken_def getNewAppAccessToken_def
      callOreIdApi_def Let_def signRequests_append split: sum.splits apiData.splits)
     (simp_all add: signRequests_def apiRequests_def)

text \<open>
  C10 as stated (after a failed eligibility check \<open>sign\<close> returns a sign URL) fails: the
  failure of the check is swallowed, but the hosted-redirect path that follows can fail
  itself. With no service key and an identity service that answers with an error, the
  check fails without a request, and the error of the request for the access token is
  thrown.
\<close>

theorem C10_sign_url_path_can_fail:
  "fst (signWithOreId ((exampleEnv (exampleUser []))\<lparr>api := failingApi\<rparr>) exampleSignOptions
          exampleWorld) = Inl (ApiError ''serviceError'')"
  by (simp add: signWithOreId_def checkIfTrxAutoSignable_def getOreIdSignUrl_def
      getAccessToken_def getNewAppAccessToken_def callOreIdApi_def failingApi_def
      exampleEnv_def exampleOptions_def exampleSignOptions_def exampleWorld_def falsy_def)

text \<open>
  C10, amended: whatever makes the eligibility check fail (no service key, an error of
  the eligibility request), \<open>signWithOreId\<close> does not throw it. It goes on as if the
  transaction were not auto-signable: no sign request is sent, and the outcome is that of
  the hosted-redirect path, the sign URL whenever the URL can be built.
\<close>

theorem C10_failed_check_is_swallowed:
  assumes "checkIfTrxAutoSignable E signOptions W = (Inl e, W1)"
  shows "signWithOreId E signOptions W =
           (case getOreIdSignUrl E
                   (signOptions\<lparr>so_callbackUrl := signCallbackUrl (options E)\<rparr>) W1 of
              (Inl e', W2) \<Rightarrow> (Inl e', W2)
            | (Inr signUrl, W2) \<Rightarrow> (Inr (SignUrl signUrl), W2)) \<and>
         signRequests (events (snd (signWithOreId E signOptions W))) = signRequests (events W)"
proof -
  let ?url = "getOreIdSignUrl E (signOptions\<lparr>so_callbackUrl := signCallbackUrl (options E)\<rparr>) W1"
  have run: "signWithOreId E signOptions W =
           (case ?url of
              (Inl e', W2) \<Rightarrow> (Inl e', W2)
            | (Inr signUrl, W2) \<Rightarrow> (Inr (SignUrl signUrl), W2))"
    using assms by (simp add: signWithOreId_def)
  have "snd (signWithOreId E signOptions W) = snd ?url"
    unfolding run by (cases ?url) (auto split: sum.splits)
  moreover have "signRequests (events W1) = signRequests (events W)"
    using checkIfTrxAutoSignable_signRequests [of E signOptions W] assms by simp
  ultimately show ?thesis
    using run getOreIdSignUrl_signRequests
      [of E "signOptions\<lparr>so_callbackUrl := signCallbackUrl (options E)\<rparr>" W1]
    by simp
qed

text \<open>
  C10 (amended) for the engine of the examples: it has no service key, the check fails,
  and the request is answered with the sign URL.
\<close>

theorem C10_failed_check_is_swallowed_witness:
  "fst (signWithOreId (exampleEnv (exampleUser [])) exampleSignOptions exampleWorld)
     = Inr (SignUrl ''https://service/sign'')"
proof -
  have check: "checkIfTrxAutoSignable (exampleEnv (exampleUser [])) exampleSignOptions exampleWorld
                 = (Inl MissingServiceKeyAutoSign, exampleWorld)"
    by (simp add: checkIfTrxAutoSignable_def exampleEnv_def exampleOptions_def falsy_def)
  show ?thesis
    using C10_failed_check_is_swallowed [OF check]
    by (simp add: getOreIdSignUrl_def getAccessToken_def getNewAppAccessToken_def
        callOreIdApi_def exampleApi_def exampleEnv_def exampleOptions_def
        exampleSignOptions_def exampleWorld_def falsy_def)
qed

subsection \<open>Discovery for providers without discovery support\<close>

lemma waitWhileWalletIsBusy_idle:
  "\<not> w_inProgress E (wallet W) \<Longrightarrow> waitWhileWalletIsBusy E W = Some (setIsBusy E False W)"
  by (subst waitWhileWalletIsBusy.simps) simp

lemma canDiscover_unsupported:
  assumes "transitProviderAttributesData E provider = Some attrs"
    and "attr_supportsDiscovery attrs \<noteq> Some True"
  shows "canDiscover E provider = Inr False"
  using assms by (simp add: canDiscover_def)

lemma requiresLogoutLoginToDiscover_valid:
  assumes "transitProviderAttributesData E provider = Some attrs"
  shows "\<exists>b. requiresLogoutLoginToDiscover E provider = Inr b"
  using assms by (cases "isTransitProvider E provider") (auto simp: requiresLogoutLoginToDiscover_def)

text \<open>
  C6 as stated (discover fails for a provider without discovery support) does not hold:
  for \<open>scatter\<close>, whose attributes say \<open>supportsDiscovery = false\<close>, \<open>discover\<close>
  connects the wallet, logs "Discover not working for provider" and returns \<open>null\<close>.
\<close>

theorem C6_discover_returns_null_for_scatter:
  "map_option fst (discover (exampleEnv (exampleUser [])) scatterDiscover exampleWorld)
     = Some (Inr None)"
  by (simp add: discover_def scatterDiscover_def assertValidProvider_def canDiscover_def
      requiresLogoutLoginToDiscover_def isTransitProvider_def isUALProvider_def
      setupTransitWallet_def getOrCreateEosTransitAccessContext_def getNetworkConfig_def
      chainNetworks_def getConfigFromApi_def callOreIdApi_def walletInit_def walletConnect_def
      waitWhileWalletIsBusy_idle setIsBusy_def Let_def
      exampleEnv_def exampleApi_def exampleOptions_def exampleWorld_def scatterAttributes_def)

text \<open>
  C6, amended: for a provider that the attribute table knows and does not mark
  \<open>supportsDiscovery = true\<close>, \<open>discover\<close> does not fail for that reason. Once the
  wallet is set up and connected, and logged out and in again where the provider
  requires that, \<open>discover\<close> returns \<open>null\<close>.
\<close>

theorem C6_discover_without_support_returns_null:
  assumes valid: "transitProviderAttributesData E (do_provider discoverOptions) = Some attrs"
    and unsupported: "attr_supportsDiscovery attrs \<noteq> Some True"
    and ready: "setupTransitWallet E (do_provider discoverOptions)
                  (case do_chainNetwork discoverOptions of None \<Rightarrow> ''eos_main'' | Some n \<Rightarrow> n) W
                = Some (Inr (), W1)"
    and relogin: "requiresLogoutLoginToDiscover E (do_provider discoverOptions) = Inr True \<Longrightarrow>
                  \<exists>W2 W3. walletLogout E W1 = (Inr (), W2) \<and>
                          walletLogin E None None W2 = (Inr (), W3)"
  shows "\<exists>W'. discover E discoverOptions W = Some (Inr None, W')"
proof -
  have can: "canDiscover E (do_provider discoverOptions) = Inr False"
    using canDiscover_unsupported [OF valid unsupported] .
  obtain b where b: "requiresLogoutLoginToDiscover E (do_provider discoverOptions) = Inr b"
    using requiresLogoutLoginToDiscover_valid [OF valid] by blast
  show ?thesis
  proof (cases b)
    case False
    then show ?thesis
      using valid can b ready by (simp add: discover_def assertValidProvider_def)
  next
    case True
    then have "requiresLogoutLoginToDiscover E (do_provider discoverOptions) = Inr True"
      using b by simp
    then obtain W2 W3 where "walletLogout E W1 = (Inr (), W2)"
      "walletLogin E None None W2 = (Inr (), W3)"
      using relogin by blast
    then show ?thesis
      using True valid can b ready by (simp add: discover_def assertValidProvider_def)
  qed
qed

text \<open>
  C6 (amended) for \<open>tokenpocket\<close>, which has no discovery support and requires a logout
  and login: \<open>discover\<close> returns \<open>null\<close>.
\<close>

theorem C6_discover_without_support_returns_null_witness:
  "map_option fst (discover (exampleEnv (exampleUser []))
      (scatterDiscover\<lparr>do_provider := ''tokenpocket''\<rparr>) exampleWorld) = Some (Inr None)"
proof -
  let ?E = "exampleEnv (exampleUser [])"
  let ?opts = "scatterDiscover\<lparr>do_provider := ''tokenpocket''\<rparr>"
  have valid: "transitProviderAttributesData ?E (do_provider ?opts) = Some tokenpocketAttributes"
    by (simp add: exampleEnv_def scatterDiscover_def)
  have unsupported: "attr_supportsDiscovery tokenpocketAttributes \<noteq> Some True"
    by (simp add: tokenpocketAttributes_def)
  obtain W1 where ready: "setupTransitWallet ?E (do_provider ?opts)
        (case do_chainNetwork ?opts of None \<Rightarrow> ''eos_main'' | Some n \<Rightarrow> n) exampleWorld
      = Some (Inr (), W1)"
    by (simp add: scatterDiscover_def
        setupTransitWallet_def getOrCreateEosTransitAccessContext_def getNetworkConfig_def
        chainNetworks_def getConfigFromApi_def callOreIdApi_def walletInit_def walletConnect_def
        waitWhileWalletIsBusy_idle setIsBusy_def Let_def
        exampleEnv_def exampleApi_def exampleOptions_def exampleWorld_def tokenpocketAttributes_def)
  have relogin: "\<exists>W2 W3. walletLogout ?E W1 = (Inr (), W2) \<and>
                          walletLogin ?E None None W2 = (Inr (), W3)"
    by (simp add: walletLogout_def walletLogin_def exampleEnv_def)
  obtain W' where "discover ?E ?opts exampleWorld = Some (Inr None, W')"
    using C6_discover_without_support_returns_null [OF valid unsupported ready relogin] by blast
  then show ?thesis by simp
qed

end
